theory Spec2Isabelle
  imports Main "HOL-Library.AList"
begin
section \<open>The PL/SQL gateway: building and invoking a procedure call (procedure.ts)\<close>

text \<open>
  The development embeds \<^verbatim>\<open>src/procedure.ts\<close>: the builders of the call plan
  (\<^verbatim>\<open>getProcedure\<close>, \<^verbatim>\<open>getVarArgsPara\<close>, \<^verbatim>\<open>getFixArgsPara\<close>, \<^verbatim>\<open>getArguments\<close>) and
  the request handler \<^verbatim>\<open>invokeProcedure\<close>.

  Conventions of the embedding.
  \<^item> A JavaScript object used as a dictionary is an association list in the order in which
    \<^verbatim>\<open>for ... in\<close>, \<^verbatim>\<open>Object.keys\<close> and \<^verbatim>\<open>Object.values\<close> enumerate it; an object has no two
    properties of the same name, so the keys of a well-formed input are distinct.
    A property store \<^verbatim>\<open>o[k] = v\<close> is \<open>AList.update k v o\<close> (replace in place, else append).
    The map of argument types is only ever read by name, so it is a finite map. Property
    names are ordinary names: the names that JavaScript resolves through the prototype of
    an object (such as \<^verbatim>\<open>__proto__\<close>) are not told apart.
  \<^item> Strings are lists of characters. \<^verbatim>\<open>String.prototype.toLowerCase\<close> belongs to the engine
    that runs the code and folds every cased letter; it is the field \<open>toLowerCase\<close> of the
    world, and a theorem assumes of it only what it states.
  \<^item> A JavaScript number that counts something is an \<open>int\<close>.
  \<^item> Every \<^verbatim>\<open>await\<close> is a sequential call. What the database and the other
    collaborators answer is read from a record \<open>world\<close>; what the handler asks of them is
    recorded as a list of events.
  \<^item> An exception is the left summand of the result. Calls of \<^verbatim>\<open>trace.write\<close> only log and
    are left out.
\<close>

subsection \<open>Data\<close>

text \<open>\<^verbatim>\<open>type argObjType = { [key: string]: string | Array<string> }\<close>\<close>

datatype argval = Str string | Arr "string list"

type_synonym argObjType = "(string \<times> argval) list"

fun isArray :: "argval \<Rightarrow> bool" where
  "isArray (Str s) = False"
| "isArray (Arr xs) = True"

text \<open>Bind descriptors of the database driver.\<close>

type_synonym lob = nat

type_synonym buffer = string

datatype bind_dir = BIND_IN | BIND_OUT | BIND_INOUT

datatype db_type = DB_STRING | DB_NUMBER | DB_BLOB

datatype bind_val = VNumber int | VString string | VArray "string list" | VLob lob

record bindDesc =
  dir :: bind_dir
  type :: db_type
  val :: "bind_val option"
  maxSize :: "int option"
  maxArraySize :: "int option"

type_synonym binds = "(string \<times> bindDesc) list"

text \<open>The call plan \<^verbatim>\<open>{ sql: string; bind: any }\<close>.\<close>

record plan =
  sql :: string
  bind :: binds

text \<open>
  The options of the middleware that the handler reads (\<^verbatim>\<open>config.ts\<close> is not among the
  sources; the three fields are taken as the handler uses them). \<open>None\<close> is an option that
  is not set.
\<close>

record pathAliasType =
  "alias" :: string
  procedure :: string

record options =
  doctable :: "string option"
  pathAlias :: "pathAliasType option"
  requestValidation :: "string option"

text \<open>The errors: the two tagged classes and the plain \<^verbatim>\<open>Error\<close> of JavaScript.\<close>

datatype gateway_error =
    RequestError string
  | ProcedureError string "(string \<times> string) list" string binds
  | Error string

text \<open>
  The out-binds of the invocation statement. \<open>irows = None\<close> is a result object without
  that property; \<open>None\<close> in the three file fields is \<^verbatim>\<open>null\<close>.
\<close>

record outBinds =
  lines :: "string list"
  irows :: "int option"
  fileType :: "string option"
  fileSize :: "int option"
  fileBlob :: "lob option"

text \<open>
  Modelled from the spec: the page model that \<^verbatim>\<open>parse\<close> of \<^verbatim>\<open>page.ts\<close> returns (the file
  is not among the sources). Section 3 of the specification lists its parts as status code,
  header list, cookie list, body and optional file payload; the handler itself writes the
  server header and the three file fields.
\<close>

record pageComponents =
  status :: int
  headers :: "(string \<times> string) list"
  cookies :: "string list"
  body :: string
  head_server :: "string option"
  file_fileType :: "string option"
  file_fileSize :: "int option"
  file_fileBlob :: "buffer option"

text \<open>An uploaded file (\<^verbatim>\<open>filesUploadType\<close> of \<^verbatim>\<open>fileUpload.ts\<close>, not among the sources).\<close>

record fileUpload =
  filename :: string
  mimetype :: string
  content :: string

type_synonym filesUploadType = "fileUpload list"

text \<open>What the engine and the collaborators answer.\<close>

text \<open>
  \<^verbatim>\<open>uploadFiles\<close> of \<^verbatim>\<open>fileUpload.ts\<close> is not among the sources; what its call does is taken
  as the handler can see it. The handler calls it as a plain statement: it does not await
  the call, does not catch what it raises and drops what it returns. So the call either
  raises an exception, or it returns; an upload that fails only after the call has
  returned (the rejected promise of an insert on the promise-based connection) is
  \<open>UploadReturns (Some failure)\<close>, and one that does not fail is \<open>UploadReturns None\<close>.
\<close>

datatype upload_outcome =
    UploadThrows gateway_error
  | UploadReturns "string option"

datatype catalog_reply =
    CatalogThrows string
  | CatalogInvalid
  | CatalogOutBinds "string list" "string list"

datatype validation_reply =
    ValidationThrows string
  | ValidationResult "int option"

datatype exec_reply =
    ExecThrows string
  | ExecNoResult
  | ExecResult outBinds

record world =
  toLowerCase :: "string \<Rightarrow> string"
  uploadOutcome :: "filesUploadType \<Rightarrow> string \<Rightarrow> upload_outcome"
  catalogReply :: "string \<Rightarrow> catalog_reply"
  validationReply :: "string \<Rightarrow> string \<Rightarrow> validation_reply"
  createLob :: "gateway_error + lob"
  procedureReply :: "string \<Rightarrow> binds \<Rightarrow> exec_reply"
  parse :: "string \<Rightarrow> gateway_error + pageComponents"
  streamToBuffer :: "lob \<Rightarrow> gateway_error + buffer"
  send :: "pageComponents \<Rightarrow> gateway_error option"

text \<open>What the handler asks of them, in the order of the calls.\<close>

datatype event =
    EvUploadFiles filesUploadType string
  | EvExecute string binds
  | EvCreateLob
  | EvParse string
  | EvStreamToBuffer lob
  | EvSend pageComponents
  | EvClose lob

type_synonym 'a io = "event list \<times> (gateway_error + 'a)"

text \<open>Sequencing: a raised error ends the run, the events so far are kept.\<close>

definition andThen :: "'a io \<Rightarrow> ('a \<Rightarrow> 'b io) \<Rightarrow> 'b io" where
  "andThen m f =
     (case m of
        (es, Inl e) \<Rightarrow> (es, Inl e)
      | (es, Inr x) \<Rightarrow> (case f x of (es', r) \<Rightarrow> (es @ es', r)))"

subsection \<open>Strings\<close>

text \<open>\<^verbatim>\<open>Array.prototype.join\<close>\<close>

fun join :: "string \<Rightarrow> string list \<Rightarrow> string" where
  "join sep [] = []"
| "join sep [x] = x"
| "join sep (x # y # ys) = x @ sep @ join sep (y # ys)"

subsection \<open>getVarArgsPara\<close>

text \<open>
  The loop pushes onto \<^verbatim>\<open>names\<close> and \<^verbatim>\<open>values\<close>; the state of the loop is the pair of the
  two arrays.
\<close>

definition varArgsStep :: "string \<times> argval \<Rightarrow> string list \<times> string list \<Rightarrow> string list \<times> string list" where
  "varArgsStep kv st =
     (case kv of (key, value) \<Rightarrow>
      case st of (names, values) \<Rightarrow>
        (case value of
           Str s \<Rightarrow> (names @ [key], values @ [s])
         | Arr items \<Rightarrow> fold (\<lambda>item (ns, vs). (ns @ [key], vs @ [item])) items (names, values)))"

definition getVarArgsPara :: "string \<Rightarrow> argObjType \<Rightarrow> plan" where
  "getVarArgsPara proc argObj =
     (case fold varArgsStep argObj ([], []) of (names, values) \<Rightarrow>
        \<lparr>sql = drop 1 proc @ ''(:argnames, :argvalues);'',
         bind = [(''argnames'', \<lparr>dir = BIND_IN, type = DB_STRING, val = Some (VArray names),
                                 maxSize = None, maxArraySize = None\<rparr>),
                 (''argvalues'', \<lparr>dir = BIND_IN, type = DB_STRING, val = Some (VArray values),
                                  maxSize = None, maxArraySize = None\<rparr>)]\<rparr>)"

subsection \<open>getArguments\<close>

definition getArguments_sql :: "string list" where
  "getArguments_sql =
    [''DECLARE'',
     ''	schemaName		VARCHAR2(32767);'',
     ''	part1			VARCHAR2(32767);'',
     ''	part2			VARCHAR2(32767);'',
     ''	dblink			VARCHAR2(32767);'',
     ''	objectType		NUMBER;'',
     ''	objectID		NUMBER;'',
     ''BEGIN'',
     ''	dbms_utility.name_resolve(name=>UPPER(:name), context=>1, schema=>schemaName, part1=>part1, part2=>part2, dblink=>dblink, part1_type=>objectType, object_number=>objectID);'',
     ''	IF (part1 IS NOT NULL) THEN'',
     ''		SELECT argument_name, data_type BULK COLLECT INTO :names, :types FROM all_arguments WHERE owner = schemaName AND package_name = part1 AND object_name = part2 AND argument_name IS NOT NULL ORDER BY overload, sequence;'',
     ''	ELSE'',
     ''		SELECT argument_name, data_type BULK COLLECT INTO :names, :types FROM all_arguments WHERE owner = schemaName AND package_name IS NULL AND object_name = part2 AND argument_name IS NOT NULL ORDER BY overload, sequence;'',
     ''	END IF;'',
     ''END;'']"

definition MAX_PARAMETER_NUMBER :: int where
  "MAX_PARAMETER_NUMBER = 1000"

definition getArguments_bind :: "string \<Rightarrow> binds" where
  "getArguments_bind proc =
    [(''name'', \<lparr>dir = BIND_IN, type = DB_STRING, val = Some (VString proc),
                  maxSize = None, maxArraySize = None\<rparr>),
     (''names'', \<lparr>dir = BIND_OUT, type = DB_STRING, val = None,
                   maxSize = Some 60, maxArraySize = Some MAX_PARAMETER_NUMBER\<rparr>),
     (''types'', \<lparr>dir = BIND_OUT, type = DB_STRING, val = None,
                   maxSize = Some 60, maxArraySize = Some MAX_PARAMETER_NUMBER\<rparr>)]"

text \<open>
  The value of a property of the map of argument types: a string, or \<^verbatim>\<open>undefined\<close> (stored
  when the array of types is shorter than the array of names).
\<close>

datatype jsstring = Undefined | JString string

type_synonym argTypesMap = "string \<rightharpoonup> jsstring"

definition at_index :: "string list \<Rightarrow> nat \<Rightarrow> jsstring" where
  "at_index xs i = (if i < length xs then JString (xs ! i) else Undefined)"

definition getProp :: "argTypesMap \<Rightarrow> string \<Rightarrow> jsstring" where
  "getProp m k = (case m k of None \<Rightarrow> Undefined | Some v \<Rightarrow> v)"

definition argTypesOf :: "world \<Rightarrow> string list \<Rightarrow> string list \<Rightarrow> argTypesMap" where
  "argTypesOf w names types =
     fold (\<lambda>i argTypes. argTypes(toLowerCase w (names ! i) \<mapsto> at_index types i))
       [0..<length names] Map.empty"

definition getArguments :: "world \<Rightarrow> string \<Rightarrow> argTypesMap io" where
  "getArguments w proc =
     ([EvExecute (join ''\<newline>'' getArguments_sql) (getArguments_bind proc)],
      case catalogReply w proc of
        CatalogThrows stack \<Rightarrow>
          Inl (RequestError (''Error when retrieving arguments\<newline>'' @ join ''\<newline>'' getArguments_sql
                               @ ''\<newline>'' @ stack))
      | CatalogInvalid \<Rightarrow> Inl (RequestError ''getArguments: invalid results'')
      | CatalogOutBinds names types \<Rightarrow> Inr (argTypesOf w names types))"

subsection \<open>getFixArgsPara\<close>

text \<open>The state of the loop is \<^verbatim>\<open>sql\<close>, \<^verbatim>\<open>index\<close> and \<^verbatim>\<open>bind\<close>.\<close>

definition fixArgsStep ::
  "argTypesMap \<Rightarrow> string \<times> argval \<Rightarrow> string \<times> nat \<times> binds \<Rightarrow> string \<times> nat \<times> binds" where
  "fixArgsStep argTypes kv st =
     (case kv of (key, value) \<Rightarrow>
      case st of (sql0, index, bind0) \<Rightarrow>
        let parameterName = ''p_'' @ key;
            sql1 = (if index > 0 then sql0 @ '','' else sql0);
            sql2 = sql1 @ key @ ''=>:'' @ parameterName;
            d = \<lparr>dir = BIND_IN, type = DB_STRING, val = None, maxSize = None, maxArraySize = None\<rparr>;
            bind1 = AList.update parameterName d bind0;
            bind2 =
              (if isArray value \<or> getProp argTypes key = JString ''PL/SQL TABLE'' then
                 AList.update parameterName
                   (d\<lparr>val := Some (VArray
                       (case value of
                          Str s \<Rightarrow> [] @ [s]
                        | Arr elements \<Rightarrow> fold (\<lambda>element v. v @ [element]) elements []))\<rparr>)
                   bind1
               else
                 (case value of
                    Str s \<Rightarrow> AList.update parameterName (d\<lparr>val := Some (VString s)\<rparr>) bind1
                  | Arr elements \<Rightarrow> bind1))
        in (sql2, index + 1, bind2))"

definition getFixArgsPara :: "world \<Rightarrow> string \<Rightarrow> argObjType \<Rightarrow> plan io" where
  "getFixArgsPara w proc argObj =
     andThen (getArguments w proc) (\<lambda>argTypes.
       case fold (fixArgsStep argTypes) argObj (proc @ ''('', 0, []) of
         (sql0, index, bind0) \<Rightarrow> ([], Inr \<lparr>sql = sql0 @ '');'', bind = bind0\<rparr>))"

subsection \<open>getProcedure\<close>

definition getProcedure :: "world \<Rightarrow> string \<Rightarrow> argObjType \<Rightarrow> options \<Rightarrow> plan io" where
  "getProcedure w proc argObj opts =
     (case (case pathAlias opts of
              None \<Rightarrow> None
            | Some pa \<Rightarrow> if alias pa = proc then Some pa else None) of
        Some pa \<Rightarrow>
          ([], Inr \<lparr>sql = procedure pa @ ''(p_path=>:p_path);'',
                    bind = [(''p_path'', \<lparr>dir = BIND_IN, type = DB_STRING, val = Some (VString proc),
                                           maxSize = None, maxArraySize = None\<rparr>)]\<rparr>)
      | None \<Rightarrow>
          if take 1 proc = ''!'' then ([], Inr (getVarArgsPara proc argObj))
          else getFixArgsPara w proc argObj)"

subsection \<open>getProcedureSQL\<close>

definition getProcedureSQL :: "string \<Rightarrow> string" where
  "getProcedureSQL proc =
     ''\<newline>DECLARE\<newline>	fileType VARCHAR2(32767);\<newline>	fileSize INTEGER;\<newline>	fileBlob BLOB;\<newline>BEGIN\<newline>''
     @ ''	-- Ensure a stateless environment by resetting package state (dbms_session.reset_package)\<newline>''
     @ ''	dbms_session.modify_package_state(dbms_session.reinitialize);\<newline>\<newline>''
     @ ''	-- initialize the cgi\<newline>	owa.init_cgi_env(:cgicount, :cginames, :cgivalues);\<newline>\<newline>''
     @ ''	-- initialize the htp package\<newline>	htp.init;\<newline>\<newline>''
     @ ''	-- set the HTBUF_LEN\<newline>	htp.HTBUF_LEN := :htbuflen;\<newline>\<newline>''
     @ ''	-- execute the procedure\<newline>	BEGIN\<newline>		'' @ proc @ ''\<newline>	EXCEPTION WHEN OTHERS THEN\<newline>''
     @ ''		raise_application_error(-20000, 'Error executing '' @ proc
     @ '''||CHR(10)||SUBSTR(dbms_utility.format_error_stack()||CHR(10)||dbms_utility.format_error_backtrace(), 1, 2000));\<newline>''
     @ ''	END;\<newline>\<newline>''
     @ ''	-- Check for file download\<newline>	IF (wpg_docload.is_file_download()) THEN\<newline>''
     @ ''		wpg_docload.get_download_file(fileType);\<newline>		IF (filetype = 'B') THEN\<newline>''
     @ ''			wpg_docload.get_download_blob(:fileBlob);\<newline>			fileSize := dbms_lob.getlength(:fileBlob);\<newline>''
     @ ''			--dbms_lob.copy(dest_lob=>:fileBlob, src_lob=>fileBlob, amount=>fileSize);\<newline>''
     @ ''		END IF;\<newline>	END IF;\<newline>	:fileType := fileType;\<newline>	:fileSize := fileSize;\<newline>\<newline>''
     @ ''	-- retrieve the page\<newline>	owa.get_page(thepage=>:lines, irows=>:irows);\<newline>END;\<newline>''"

subsection \<open>invokeProcedure\<close>

text \<open>1) UPLOAD FILES\<close>

definition uploadStep :: "world \<Rightarrow> filesUploadType \<Rightarrow> options \<Rightarrow> unit io" where
  "uploadStep w filesToUpload opts =
     (case doctable opts of
        None \<Rightarrow> ([], Inr ())
      | Some table \<Rightarrow>
          if length table > 0 then
            ([EvUploadFiles filesToUpload table],
             case uploadOutcome w filesToUpload table of
               UploadThrows e \<Rightarrow> Inl e
             | UploadReturns later \<Rightarrow> Inr ())
          else ([], Inr ()))"

text \<open>3) Validate Procedure\<close>

definition validation_query :: "string \<Rightarrow> string" where
  "validation_query validationFunction =
     ''DECLARE\<newline>		a boolean;\<newline>		ret number;\<newline>    BEGIN\<newline>        a := ''
     @ validationFunction
     @ ''(:proc);\<newline>		:ret := case when a then 1 else 0 end;\<newline>    END;''"

definition validation_bind :: "string \<Rightarrow> binds" where
  "validation_bind proc =
     [(''proc'', \<lparr>dir = BIND_IN, type = DB_STRING, val = Some (VString proc),
                  maxSize = None, maxArraySize = None\<rparr>),
      (''ret'', \<lparr>dir = BIND_OUT, type = DB_NUMBER, val = None,
                 maxSize = None, maxArraySize = None\<rparr>)]"

text \<open>
  \<^verbatim>\<open>options.requestValidation || false\<close>: an option that is not set and the empty string
  are both falsy.
\<close>

definition validationFunction_of :: "options \<Rightarrow> string option" where
  "validationFunction_of opts =
     (case requestValidation opts of
        None \<Rightarrow> None
      | Some f \<Rightarrow> if f = [] then None else Some f)"

definition validateProcedure :: "world \<Rightarrow> string \<Rightarrow> options \<Rightarrow> bool io" where
  "validateProcedure w proc opts =
     (case validationFunction_of opts of
        None \<Rightarrow> ([], Inr True)
      | Some validationFunction \<Rightarrow>
          ([EvExecute (validation_query validationFunction) (validation_bind proc)],
           case validationReply w validationFunction proc of
             ValidationThrows e \<Rightarrow>
               Inl (Error ''Error during the validation of the procedure (RequestValidationFunction)'')
           | ValidationResult None \<Rightarrow> Inr False
           | ValidationResult (Some ret) \<Rightarrow> Inr (if ret \<noteq> 0 then ret = 1 else False)))"

text \<open>4) EXECUTE PROCEDURE\<close>

definition HTBUF_LEN :: int where
  "HTBUF_LEN = 63"

definition MAX_IROWS :: int where
  "MAX_IROWS = 100000"

definition envelope :: "(string \<times> string) list \<Rightarrow> lob \<Rightarrow> binds" where
  "envelope cgiObj fileBlob0 =
     [(''cgicount'', \<lparr>dir = BIND_IN, type = DB_NUMBER, val = Some (VNumber (int (length (map fst cgiObj)))),
                      maxSize = None, maxArraySize = None\<rparr>),
      (''cginames'', \<lparr>dir = BIND_IN, type = DB_STRING, val = Some (VArray (map fst cgiObj)),
                      maxSize = None, maxArraySize = None\<rparr>),
      (''cgivalues'', \<lparr>dir = BIND_IN, type = DB_STRING, val = Some (VArray (map snd cgiObj)),
                       maxSize = None, maxArraySize = None\<rparr>),
      (''htbuflen'', \<lparr>dir = BIND_IN, type = DB_NUMBER, val = Some (VNumber HTBUF_LEN),
                      maxSize = None, maxArraySize = None\<rparr>),
      (''fileType'', \<lparr>dir = BIND_OUT, type = DB_STRING, val = None,
                      maxSize = None, maxArraySize = None\<rparr>),
      (''fileSize'', \<lparr>dir = BIND_OUT, type = DB_NUMBER, val = None,
                      maxSize = None, maxArraySize = None\<rparr>),
      (''fileBlob'', \<lparr>dir = BIND_INOUT, type = DB_BLOB, val = Some (VLob fileBlob0),
                      maxSize = None, maxArraySize = None\<rparr>),
      (''lines'', \<lparr>dir = BIND_OUT, type = DB_STRING, val = None,
                   maxSize = Some (HTBUF_LEN * 2), maxArraySize = Some MAX_IROWS\<rparr>),
      (''irows'', \<lparr>dir = BIND_INOUT, type = DB_NUMBER, val = Some (VNumber MAX_IROWS),
                   maxSize = None, maxArraySize = None\<rparr>)]"

text \<open>\<^verbatim>\<open>Object.assign(target, source)\<close>: every property of the source is stored in the target.\<close>

definition Object_assign :: "binds \<Rightarrow> binds \<Rightarrow> binds" where
  "Object_assign target source = fold (\<lambda>kv acc. AList.update (fst kv) (snd kv) acc) source target"

definition accessDenied :: outBinds where
  "accessDenied = \<lparr>lines = [''No access to this.''], irows = None,
                    fileType = None, fileSize = None, fileBlob = None\<rparr>"

text \<open>The result is \<open>None\<close> when the driver returns a falsy value.\<close>

definition executeProcedure ::
  "world \<Rightarrow> (string \<times> string) list \<Rightarrow> plan \<Rightarrow> bool \<Rightarrow> lob \<Rightarrow> outBinds option io" where
  "executeProcedure w cgiObj para validOperation fileBlob0 =
     (let sqlStatement = getProcedureSQL (sql para);
          b = Object_assign (envelope cgiObj fileBlob0) (bind para)
      in if validOperation then
           ([EvExecute sqlStatement b],
            case procedureReply w sqlStatement b of
              ExecThrows err \<Rightarrow>
                Inl (ProcedureError (''Error when executing procedure\<newline>'' @ sqlStatement @ ''\<newline>'' @ err)
                       cgiObj (sql para) (bind para))
            | ExecNoResult \<Rightarrow> Inr None
            | ExecResult ob \<Rightarrow> Inr (Some ob))
         else ([], Inr (Some accessDenied)))"

text \<open>5) PROCESS RESULTS. The number in the message is written in decimal.\<close>

function show_nat :: "nat \<Rightarrow> string" where
  "show_nat n =
     (if n < 10 then [''0123456789'' ! n]
      else show_nat (n div 10) @ [''0123456789'' ! (n mod 10)])"
  by pat_completeness auto
termination
  by (relation "measure id") auto

declare show_nat.simps [simp del]

definition show_int :: "int \<Rightarrow> string" where
  "show_int i = (if i < 0 then ''-'' @ show_nat (nat (- i)) else show_nat (nat i))"

definition processResults :: "(string \<times> string) list \<Rightarrow> plan \<Rightarrow> outBinds option \<Rightarrow> outBinds io" where
  "processResults cgiObj para result =
     (case result of
        None \<Rightarrow> ([], Inl (ProcedureError ''Error when retrieving rows'' cgiObj (sql para) (bind para)))
      | Some ob \<Rightarrow>
          (case irows ob of
             None \<Rightarrow> ([], Inr ob)
           | Some n \<Rightarrow>
               if n > MAX_IROWS then
                 ([], Inl (ProcedureError
                        (''Error when retrieving rows. irows='' @ [CHR 0x22] @ show_int n @ [CHR 0x22])
                        cgiObj (sql para) (bind para)))
               else ([], Inr ob)))"

text \<open>6) PARSE PAGE, 7) SEND THE RESPONSE, 8) CLEANUP\<close>

definition parseAndSend :: "world \<Rightarrow> (string \<times> string) list \<Rightarrow> lob \<Rightarrow> outBinds \<Rightarrow> unit io" where
  "parseAndSend w cgiObj fileBlob0 ob =
     (let pageContent = join [] (lines ob)
      in andThen ([EvParse pageContent], parse w pageContent) (\<lambda>pageComponents.
         andThen (case fileBlob ob of
                    None \<Rightarrow> ([], Inr None)
                  | Some l \<Rightarrow>
                      ([EvStreamToBuffer l],
                       case streamToBuffer w l of Inl e \<Rightarrow> Inl e | Inr buf \<Rightarrow> Inr (Some buf))) (\<lambda>buf.
         let page = pageComponents
               \<lparr>head_server := map_of cgiObj ''SERVER_SOFTWARE'',
                file_fileType := fileType ob,
                file_fileSize := fileSize ob,
                file_fileBlob := buf\<rparr>
         in andThen ([EvSend page], case send w page of Some e \<Rightarrow> Inl e | None \<Rightarrow> Inr ()) (\<lambda>u.
            ([EvClose fileBlob0], Inr ())))))"

text \<open>The handler; \<open>proc\<close> is \<^verbatim>\<open>req.params.name\<close>.\<close>

definition invokeProcedure ::
  "world \<Rightarrow> string \<Rightarrow> argObjType \<Rightarrow> (string \<times> string) list \<Rightarrow> filesUploadType \<Rightarrow> options \<Rightarrow> unit io" where
  "invokeProcedure w proc argObj cgiObj filesToUpload opts =
     andThen (uploadStep w filesToUpload opts) (\<lambda>u.
     andThen (getProcedure w proc argObj opts) (\<lambda>para.
     andThen (validateProcedure w proc opts) (\<lambda>validOperation.
     andThen ([EvCreateLob], createLob w) (\<lambda>fileBlob0.
     andThen (executeProcedure w cgiObj para validOperation fileBlob0) (\<lambda>result.
     andThen (processResults cgiObj para result) (\<lambda>ob.
     parseAndSend w cgiObj fileBlob0 ob))))))"

subsection \<open>An example request\<close>

text \<open>
  The lower-casing of the letters A to Z, which is what \<^verbatim>\<open>toLowerCase\<close> does to a string of
  ASCII characters; it is the lower-casing of the example world only.
\<close>

definition asciiLowerCase_char :: "char \<Rightarrow> char" where
  "asciiLowerCase_char c =
     (case map_of (zip ''ABCDEFGHIJKLMNOPQRSTUVWXYZ'' ''abcdefghijklmnopqrstuvwxyz'') c of
        None \<Rightarrow> c
      | Some l \<Rightarrow> l)"

definition asciiLowerCase :: "string \<Rightarrow> string" where
  "asciiLowerCase s = map asciiLowerCase_char s"

definition examplePage :: "string \<Rightarrow> pageComponents" where
  "examplePage s = \<lparr>status = 200, headers = [], cookies = [], body = s, head_server = None,
                     file_fileType = None, file_fileSize = None, file_fileBlob = None\<rparr>"

definition exampleWorld :: world where
  "exampleWorld =
     \<lparr>toLowerCase = asciiLowerCase,
      uploadOutcome = (\<lambda>files table. UploadReturns None),
      catalogReply = (\<lambda>proc. CatalogOutBinds [''P_ITEMS'', ''P_NAME''] [''PL/SQL TABLE'', ''VARCHAR2'']),
      validationReply = (\<lambda>f proc. ValidationResult (Some 1)),
      createLob = Inr 7,
      procedureReply = (\<lambda>s b. ExecResult \<lparr>lines = [''Hello, '', ''world''], irows = Some 100000,
                                              fileType = None, fileSize = None, fileBlob = None\<rparr>),
      parse = (\<lambda>s. Inr (examplePage s)),
      streamToBuffer = (\<lambda>l. Inr []),
      send = (\<lambda>page. None)\<rparr>"

definition exampleOptions :: options where
  "exampleOptions = \<lparr>doctable = None, pathAlias = None, requestValidation = None\<rparr>"

section \<open>Lemmas about the builders of the call plan\<close>

lemma fold_push_items:
  "fold (\<lambda>item (ns, vs). (ns @ [key], vs @ [item])) items (ns, vs)
     = (ns @ replicate (length items) key, vs @ items)"
  by (induction items arbitrary: ns vs) (simp_all add: replicate_app_Cons_same)

lemma fold_varArgsStep:
  "fold varArgsStep argObj (ns, vs)
     = (ns @ map fst (concat (map (\<lambda>(key, value). case value of Str s \<Rightarrow> [(key, s)] | Arr items \<Rightarrow> map (Pair key) items) argObj)),
        vs @ map snd (concat (map (\<lambda>(key, value). case value of Str s \<Rightarrow> [(key, s)] | Arr items \<Rightarrow> map (Pair key) items) argObj)))"
proof (induction argObj arbitrary: ns vs)
  case Nil
  then show ?case by simp
next
  case (Cons kv argObj)
  obtain key "value" where kv: "kv = (key, value)" by (cases kv)
  show ?case
  proof (cases "value")
    case (Str s)
    with kv Cons show ?thesis by (simp add: varArgsStep_def)
  next
    case (Arr items)
    have "map fst (map (Pair key) items) = replicate (length items) key"
      by (induction items) simp_all
    moreover have "map snd (map (Pair key) items) = items"
      by (induction items) simp_all
    ultimately show ?thesis using kv Arr Cons
      by (simp add: varArgsStep_def fold_push_items)
  qed
qed

lemma asciiLowerCase_char_idem: "asciiLowerCase_char (asciiLowerCase_char c) = asciiLowerCase_char c"
  by (simp add: asciiLowerCase_char_def)

lemma asciiLowerCase_idem: "asciiLowerCase (asciiLowerCase s) = asciiLowerCase s"
  by (simp add: asciiLowerCase_def asciiLowerCase_char_idem)

lemma fold_push_elements: "fold (\<lambda>element v. v @ [element]) elements acc = acc @ elements"
  by (induction elements arbitrary: acc) simp_all

lemma fixArgsStep_eq:
  "fixArgsStep argTypes (key, value) (s, i, b) =
     ((if i > 0 then s @ '','' else s) @ key @ ''=>:'' @ ''p_'' @ key, i + 1,
      AList.update (''p_'' @ key)
        \<lparr>dir = BIND_IN, type = DB_STRING,
         val = Some (case value of
                       Arr elements \<Rightarrow> VArray elements
                     | Str x \<Rightarrow> if getProp argTypes key = JString ''PL/SQL TABLE'' then VArray [x] else VString x),
         maxSize = None, maxArraySize = None\<rparr> b)"
  by (cases "value") (simp_all add: fixArgsStep_def Let_def fold_push_elements)

lemma fixArgs_fold_other:
  "k \<notin> (\<lambda>kv. ''p_'' @ fst kv) ` set argObj \<Longrightarrow>
     map_of (snd (snd (fold (fixArgsStep argTypes) argObj st))) k = map_of (snd (snd st)) k"
proof (induction argObj arbitrary: st)
  case Nil
  then show ?case by simp
next
  case (Cons kv argObj)
  obtain key "value" where kv: "kv = (key, value)" by (cases kv)
  obtain s i b where st: "st = (s, i, b)" by (cases st)
  from Cons.prems kv have ne: "k \<noteq> ''p_'' @ key" and rest: "k \<notin> (\<lambda>kv. ''p_'' @ fst kv) ` set argObj"
    by auto
  show ?case
    using Cons.IH [OF rest] ne by (simp add: kv st fixArgsStep_eq update_conv')
qed

lemma fixArgs_fold_lookup:
  assumes "distinct (map fst argObj)" and "(key, value) \<in> set argObj"
  shows "map_of (snd (snd (fold (fixArgsStep argTypes) argObj st))) (''p_'' @ key) =
     Some \<lparr>dir = BIND_IN, type = DB_STRING,
         val = Some (case value of
                       Arr elements \<Rightarrow> VArray elements
                     | Str x \<Rightarrow> if getProp argTypes key = JString ''PL/SQL TABLE'' then VArray [x] else VString x),
         maxSize = None, maxArraySize = None\<rparr>"
  using assms
proof (induction argObj arbitrary: st)
  case Nil
  then show ?case by simp
next
  case (Cons kv argObj)
  obtain k v where kv: "kv = (k, v)" by (cases kv)
  obtain s i b where st: "st = (s, i, b)" by (cases st)
  show ?case
  proof (cases "(key, value) \<in> set argObj")
    case True
    with Cons show ?thesis by simp
  next
    case False
    with Cons.prems kv have eq: "k = key" "v = value" by auto
    from Cons.prems kv eq have "key \<notin> fst ` set argObj" by auto
    then have "''p_'' @ key \<notin> (\<lambda>kv. ''p_'' @ fst kv) ` set argObj" by auto
    from fixArgs_fold_other [OF this] show ?thesis
      by (simp add: kv st eq fixArgsStep_eq update_conv')
  qed
qed

lemma fixArgs_fold_keys:
  "fst ` set (snd (snd (fold (fixArgsStep argTypes) argObj st))) =
     fst ` set (snd (snd st)) \<union> (\<lambda>kv. ''p_'' @ fst kv) ` set argObj"
proof (induction argObj arbitrary: st)
  case Nil
  then show ?case by simp
next
  case (Cons kv argObj)
  obtain k v where kv: "kv = (k, v)" by (cases kv)
  obtain s i b where st: "st = (s, i, b)" by (cases st)
  show ?case
    by (auto simp: Cons.IH kv st fixArgsStep_eq dom_update)
qed

lemma fixArgs_fold_key_list:
  "distinct (map fst argObj) \<Longrightarrow>
   set (map fst (snd (snd st))) \<inter> (\<lambda>kv. ''p_'' @ fst kv) ` set argObj = {} \<Longrightarrow>
   map fst (snd (snd (fold (fixArgsStep argTypes) argObj st))) =
     map fst (snd (snd st)) @ map (\<lambda>kv. ''p_'' @ fst kv) argObj"
proof (induction argObj arbitrary: st)
  case Nil
  then show ?case by simp
next
  case (Cons kv argObj)
  obtain k v where kv: "kv = (k, v)" by (cases kv)
  obtain s i b where st: "st = (s, i, b)" by (cases st)
  from Cons.prems kv st have fresh: "''p_'' @ k \<notin> set (map fst b)" by auto
  from Cons.prems kv have d: "distinct (map fst argObj)" and nk: "k \<notin> fst ` set argObj" by auto
  have disj: "set (map fst (snd (snd (fixArgsStep argTypes kv st)))) \<inter> (\<lambda>kv. ''p_'' @ fst kv) ` set argObj = {}"
    using Cons.prems(2) nk fresh by (auto simp: kv st fixArgsStep_eq update_keys)
  show ?case
    using Cons.IH [OF d disj] fresh by (simp add: kv st fixArgsStep_eq update_keys)
qed

lemma argTypesOf_fold_dom:
  "n \<le> length names \<Longrightarrow>
   dom (fold (\<lambda>i argTypes. argTypes(toLowerCase w (names ! i) \<mapsto> at_index types i)) [0..<n] Map.empty)
     = (\<lambda>i. toLowerCase w (names ! i)) ` {0..<n}"
  by (induction n) (auto simp: atLeast0_lessThan_Suc)

lemma argTypesOf_dom: "dom (argTypesOf w names types) = toLowerCase w ` set names"
proof -
  have "(\<lambda>i. toLowerCase w (names ! i)) ` {0..<length names} = toLowerCase w ` set names"
    by (force simp: in_set_conv_nth)
  then show ?thesis
    using argTypesOf_fold_dom [of "length names" names w types] by (simp add: argTypesOf_def)
qed

lemma argTypesOf_fold_last:
  "n \<le> length names \<Longrightarrow> i < n \<Longrightarrow>
   (\<forall>j<n. i < j \<longrightarrow> toLowerCase w (names ! j) \<noteq> toLowerCase w (names ! i)) \<Longrightarrow>
   fold (\<lambda>i argTypes. argTypes(toLowerCase w (names ! i) \<mapsto> at_index types i)) [0..<n] Map.empty
     (toLowerCase w (names ! i)) = Some (at_index types i)"
proof (induction n)
  case 0
  then show ?case by simp
next
  case (Suc n)
  show ?case
  proof (cases "i = n")
    case True
    then show ?thesis by simp
  next
    case False
    with Suc.prems have i: "i < n" by simp
    with Suc.prems have ne: "toLowerCase w (names ! n) \<noteq> toLowerCase w (names ! i)" by simp
    from Suc.prems have "\<forall>j<n. i < j \<longrightarrow> toLowerCase w (names ! j) \<noteq> toLowerCase w (names ! i)" by simp
    with Suc.IH i Suc.prems(1) show ?thesis using ne by simp
  qed
qed

lemma argTypesOf_last:
  "i < length names \<Longrightarrow>
   (\<forall>j<length names. i < j \<longrightarrow> toLowerCase w (names ! j) \<noteq> toLowerCase w (names ! i)) \<Longrightarrow>
   argTypesOf w names types (toLowerCase w (names ! i)) = Some (at_index types i)"
  using argTypesOf_fold_last [of "length names" names i w types] by (simp add: argTypesOf_def)

lemma argTypesOf_not_lower:
  assumes "\<forall>s. toLowerCase w (toLowerCase w s) = toLowerCase w s"
    and "toLowerCase w key \<noteq> key"
  shows "argTypesOf w names types key = None"
proof -
  have "key \<notin> toLowerCase w ` set names"
  proof
    assume "key \<in> toLowerCase w ` set names"
    then obtain n where "key = toLowerCase w n" by auto
    with assms(1) have "toLowerCase w key = key" by simp
    with assms(2) show False by simp
  qed
  then show ?thesis
    using argTypesOf_dom [of w names types] by blast
qed

lemma getProp_JString: "getProp m k = JString t \<longleftrightarrow> m k = Some (JString t)"
  by (simp add: getProp_def split: option.splits)

lemma getFixArgsPara_rows:
  assumes "catalogReply w proc = CatalogOutBinds names types"
  shows "getFixArgsPara w proc argObj =
    ([EvExecute (join ''\<newline>'' getArguments_sql) (getArguments_bind proc)],
     Inr \<lparr>sql = fst (fold (fixArgsStep (argTypesOf w names types)) argObj (proc @ ''('', 0, [])) @ '');'',
          bind = snd (snd (fold (fixArgsStep (argTypesOf w names types)) argObj (proc @ ''('', 0, [])))\<rparr>)"
  using assms
  by (simp add: getFixArgsPara_def getArguments_def andThen_def split: prod.splits)

lemma Object_assign_other:
  "k \<notin> fst ` set source \<Longrightarrow> map_of (Object_assign target source) k = map_of target k"
proof -
  have "k \<notin> fst ` set source \<Longrightarrow>
        map_of (fold (\<lambda>kv acc. AList.update (fst kv) (snd kv) acc) source target) k = map_of target k"
    for target
  proof (induction source arbitrary: target)
    case Nil
    then show ?case by simp
  next
    case (Cons kv source)
    then show ?case by (simp add: update_conv')
  qed
  then show "k \<notin> fst ` set source \<Longrightarrow> ?thesis" by (simp add: Object_assign_def)
qed

lemma envelope_keys:
  "map fst (envelope cgiObj l) =
     [''cgicount'', ''cginames'', ''cgivalues'', ''htbuflen'', ''fileType'', ''fileSize'',
      ''fileBlob'', ''lines'', ''irows'']"
  by (simp add: envelope_def)

lemma envelope_distinct: "distinct (map fst (envelope cgiObj l))"
  by (simp add: envelope_keys)

lemma getProcedure_var:
  assumes "\<forall>pa. pathAlias opts = Some pa \<longrightarrow> alias pa \<noteq> proc" and "take 1 proc = ''!''"
  shows "getProcedure w proc argObj opts = ([], Inr (getVarArgsPara proc argObj))"
proof -
  have "(case pathAlias opts of None \<Rightarrow> None | Some pa \<Rightarrow> if alias pa = proc then Some pa else None) = None"
    using assms(1) by (cases "pathAlias opts") simp_all
  then show ?thesis using assms(2) by (simp add: getProcedure_def)
qed

lemma getProcedure_fix:
  assumes "\<forall>pa. pathAlias opts = Some pa \<longrightarrow> alias pa \<noteq> proc" and "take 1 proc \<noteq> ''!''"
  shows "getProcedure w proc argObj opts = getFixArgsPara w proc argObj"
proof -
  have "(case pathAlias opts of None \<Rightarrow> None | Some pa \<Rightarrow> if alias pa = proc then Some pa else None) = None"
    using assms(1) by (cases "pathAlias opts") simp_all
  then show ?thesis using assms(2) by (simp add: getProcedure_def)
qed

lemma getProcedure_alias:
  assumes "pathAlias opts = Some pa" and "alias pa = proc"
  shows "getProcedure w proc argObj opts =
    ([], Inr \<lparr>sql = procedure pa @ ''(p_path=>:p_path);'',
              bind = [(''p_path'', \<lparr>dir = BIND_IN, type = DB_STRING, val = Some (VString proc),
                                     maxSize = None, maxArraySize = None\<rparr>)]\<rparr>)"
  using assms by (simp add: getProcedure_def)

lemma getVarArgsPara_keys: "map fst (bind (getVarArgsPara proc argObj)) = [''argnames'', ''argvalues'']"
  by (simp add: getVarArgsPara_def split: prod.splits)

lemma getFixArgsPara_keys:
  assumes "getFixArgsPara w proc argObj = (es, Inr para)"
  shows "fst ` set (bind para) = (\<lambda>kv. ''p_'' @ fst kv) ` set argObj"
    and "distinct (map fst argObj) \<Longrightarrow> map fst (bind para) = map (\<lambda>kv. ''p_'' @ fst kv) argObj"
proof -
  obtain names types where r: "catalogReply w proc = CatalogOutBinds names types"
    using assms
    by (cases "catalogReply w proc") (simp_all add: getFixArgsPara_def getArguments_def andThen_def)
  from assms have p: "bind para = snd (snd (fold (fixArgsStep (argTypesOf w names types)) argObj (proc @ ''('', 0, [])))"
    by (auto simp: getFixArgsPara_rows [OF r])
  show "fst ` set (bind para) = (\<lambda>kv. ''p_'' @ fst kv) ` set argObj"
    by (simp add: p fixArgs_fold_keys)
  show "distinct (map fst argObj) \<Longrightarrow> map fst (bind para) = map (\<lambda>kv. ''p_'' @ fst kv) argObj"
    by (simp add: p fixArgs_fold_key_list)
qed

lemma getProcedure_keys_disjoint:
  assumes "getProcedure w proc argObj opts = (es, Inr para)"
  shows "fst ` set (bind para) \<inter> set (map fst (envelope cgiObj l)) = {}"
proof (cases "\<exists>pa. pathAlias opts = Some pa \<and> alias pa = proc")
  case True
  then obtain pa where "pathAlias opts = Some pa" and "alias pa = proc" by blast
  from getProcedure_alias [OF this, of w argObj] assms
  have "bind para = [(''p_path'', \<lparr>dir = BIND_IN, type = DB_STRING, val = Some (VString proc),
                                         maxSize = None, maxArraySize = None\<rparr>)]"
    by auto
  then show ?thesis by (simp add: envelope_keys)
next
  case False
  then have nalias: "\<forall>pa. pathAlias opts = Some pa \<longrightarrow> alias pa \<noteq> proc" by blast
  show ?thesis
  proof (cases "take 1 proc = ''!''")
    case True
    with nalias have "getProcedure w proc argObj opts = ([], Inr (getVarArgsPara proc argObj))"
      by (rule getProcedure_var)
    with assms have "para = getVarArgsPara proc argObj" by simp
    then have "map fst (bind para) = [''argnames'', ''argvalues'']"
      by (simp only: getVarArgsPara_keys)
    then have "set (map fst (bind para)) = {''argnames'', ''argvalues''}"
      by (simp only: list.set)
    then show ?thesis by (simp add: envelope_keys)
  next
    case False
    with nalias have "getProcedure w proc argObj opts = getFixArgsPara w proc argObj"
      by (rule getProcedure_fix)
    with assms have "getFixArgsPara w proc argObj = (es, Inr para)" by simp
    then have "fst ` set (bind para) = (\<lambda>kv. ''p_'' @ fst kv) ` set argObj"
      by (rule getFixArgsPara_keys)
    then show ?thesis by (auto simp: envelope_keys)
  qed
qed

section \<open>Properties of the call plan\<close>

text \<open>
  Claim C2. When the name equals the configured alias, the plan calls the configured target
  procedure with the single binding \<^verbatim>\<open>p_path\<close> whose value is the name as it came in. Nothing
  is assumed of the name, so the rule also applies to a name that starts with \<^verbatim>\<open>!\<close>, and
  neither the variable-argument nor the fixed-argument rule is tried.
\<close>

theorem getProcedure_path_alias:
  assumes "pathAlias opts = Some pa" and "alias pa = proc"
  shows "getProcedure w proc argObj opts =
    ([], Inr \<lparr>sql = procedure pa @ ''(p_path=>:p_path);'',
              bind = [(''p_path'', \<lparr>dir = BIND_IN, type = DB_STRING, val = Some (VString proc),
                                     maxSize = None, maxArraySize = None\<rparr>)]\<rparr>)"
  using assms by (simp add: getProcedure_def)

theorem getProcedure_path_alias_witness:
  "getProcedure exampleWorld ''!home'' [(''a'', Str ''1'')]
     (exampleOptions\<lparr>pathAlias := Some \<lparr>alias = ''!home'', procedure = ''pkg.page''\<rparr>\<rparr>) =
    ([], Inr \<lparr>sql = ''pkg.page(p_path=>:p_path);'',
              bind = [(''p_path'', \<lparr>dir = BIND_IN, type = DB_STRING, val = Some (VString ''!home''),
                                     maxSize = None, maxArraySize = None\<rparr>)]\<rparr>)
   \<and> take 1 ''!home'' = ''!''"
  using getProcedure_path_alias [of "exampleOptions\<lparr>pathAlias := Some \<lparr>alias = ''!home'', procedure = ''pkg.page''\<rparr>\<rparr>"
      "\<lparr>alias = ''!home'', procedure = ''pkg.page''\<rparr>" "''!home''" exampleWorld "[(''a'', Str ''1'')]"]
  by simp

text \<open>
  Claim C3. In variable-argument mode (the name starts with \<^verbatim>\<open>!\<close> and is not the configured
  alias) the plan calls the name without its first character and binds exactly two arrays
  of strings, \<^verbatim>\<open>argnames\<close> and \<^verbatim>\<open>argvalues\<close>: the first and second components of the list of
  pairs in which a single-valued argument gives one pair and a multi-valued argument one
  pair for each element, in the order of the keys and then of the elements. The run asks
  nothing of the database (no event), whatever the world is.
\<close>

theorem getProcedure_variable_arguments:
  assumes "take 1 proc = ''!''"
    and "\<forall>pa. pathAlias opts = Some pa \<longrightarrow> alias pa \<noteq> proc"
  shows "getProcedure w proc argObj opts =
    ([], Inr \<lparr>sql = drop 1 proc @ ''(:argnames, :argvalues);'',
              bind = [(''argnames'', \<lparr>dir = BIND_IN, type = DB_STRING,
                         val = Some (VArray (map fst (concat (map (\<lambda>(key, value). case value of Str s \<Rightarrow> [(key, s)] | Arr items \<Rightarrow> map (Pair key) items) argObj)))),
                         maxSize = None, maxArraySize = None\<rparr>),
                      (''argvalues'', \<lparr>dir = BIND_IN, type = DB_STRING,
                         val = Some (VArray (map snd (concat (map (\<lambda>(key, value). case value of Str s \<Rightarrow> [(key, s)] | Arr items \<Rightarrow> map (Pair key) items) argObj)))),
                         maxSize = None, maxArraySize = None\<rparr>)]\<rparr>)"
proof -
  have "(case pathAlias opts of None \<Rightarrow> None | Some pa \<Rightarrow> if alias pa = proc then Some pa else None) = None"
    using assms(2) by (cases "pathAlias opts") simp_all
  then show ?thesis
    using assms(1) fold_varArgsStep [of argObj "[]" "[]"]
    by (simp add: getProcedure_def getVarArgsPara_def)
qed

theorem getProcedure_variable_arguments_witness:
  "take 1 ''!show'' = ''!''
   \<and> getProcedure exampleWorld ''!show'' [(''a'', Str ''1''), (''b'', Arr [''2'', ''3''])]
        (exampleOptions\<lparr>pathAlias := Some \<lparr>alias = ''home'', procedure = ''pkg.home''\<rparr>\<rparr>) =
      ([], Inr \<lparr>sql = ''show(:argnames, :argvalues);'',
              bind = [(''argnames'', \<lparr>dir = BIND_IN, type = DB_STRING,
                         val = Some (VArray [''a'', ''b'', ''b'']), maxSize = None, maxArraySize = None\<rparr>),
                      (''argvalues'', \<lparr>dir = BIND_IN, type = DB_STRING,
                         val = Some (VArray [''1'', ''2'', ''3'']), maxSize = None, maxArraySize = None\<rparr>)]\<rparr>)"
proof -
  have h1: "take 1 ''!show'' = ''!''" by simp
  have h2: "\<forall>pa. pathAlias (exampleOptions\<lparr>pathAlias := Some \<lparr>alias = ''home'', procedure = ''pkg.home''\<rparr>\<rparr>) = Some pa \<longrightarrow> alias pa \<noteq> ''!show''"
    by simp
  show ?thesis
    using h1 h2 getProcedure_variable_arguments [OF h1 h2, of exampleWorld "[(''a'', Str ''1''), (''b'', Arr [''2'', ''3''])]"]
    by simp
qed

text \<open>
  What the fixed-argument mode binds, for every argument of a well-formed mapping: an array
  for a multi-valued argument (its elements, in their order); for a single-valued argument
  a one-element array when the property of the type map \<^emph>\<open>under the HTTP name as sent\<close> is
  \<^verbatim>\<open>PL/SQL TABLE\<close>, and the scalar string otherwise.
\<close>

lemma getFixArgsPara_binding:
  assumes "catalogReply w proc = CatalogOutBinds names types"
    and "distinct (map fst argObj)" and "(key, value) \<in> set argObj"
  shows "\<exists>es para. getFixArgsPara w proc argObj = (es, Inr para)
     \<and> map_of (bind para) (''p_'' @ key) =
         Some \<lparr>dir = BIND_IN, type = DB_STRING,
               val = Some (case value of
                             Arr elements \<Rightarrow> VArray elements
                           | Str x \<Rightarrow>
                               if argTypesOf w names types key = Some (JString ''PL/SQL TABLE'')
                               then VArray [x] else VString x),
               maxSize = None, maxArraySize = None\<rparr>"
  using fixArgs_fold_lookup [OF assms(2) assms(3), of "argTypesOf w names types" "(proc @ ''('', 0, [])"]
  by (cases "value") (simp_all add: getFixArgsPara_rows [OF assms(1)] getProp_JString)

lemma exampleWorld_types:
  "argTypesOf exampleWorld [''P_ITEMS'', ''P_NAME''] [''PL/SQL TABLE'', ''VARCHAR2''] ''P_ITEMS'' = None"
  "argTypesOf exampleWorld [''P_ITEMS'', ''P_NAME''] [''PL/SQL TABLE'', ''VARCHAR2''] ''p_items''
     = Some (JString ''PL/SQL TABLE'')"
proof -
  have lc: "toLowerCase exampleWorld = asciiLowerCase"
    by (simp add: exampleWorld_def)
  show "argTypesOf exampleWorld [''P_ITEMS'', ''P_NAME''] [''PL/SQL TABLE'', ''VARCHAR2''] ''P_ITEMS'' = None"
    by (rule argTypesOf_not_lower)
      (simp_all add: lc asciiLowerCase_idem, simp add: asciiLowerCase_def asciiLowerCase_char_def)
  have "argTypesOf exampleWorld [''P_ITEMS'', ''P_NAME''] [''PL/SQL TABLE'', ''VARCHAR2'']
          (toLowerCase exampleWorld ([''P_ITEMS'', ''P_NAME''] ! 0))
          = Some (at_index [''PL/SQL TABLE'', ''VARCHAR2''] 0)"
    by (rule argTypesOf_last)
      (simp_all add: lc less_Suc_eq asciiLowerCase_def asciiLowerCase_char_def)
  then show "argTypesOf exampleWorld [''P_ITEMS'', ''P_NAME''] [''PL/SQL TABLE'', ''VARCHAR2''] ''p_items''
     = Some (JString ''PL/SQL TABLE'')"
    by (simp add: lc asciiLowerCase_def asciiLowerCase_char_def at_index_def)
qed

text \<open>
  Claim C1 fails on the code. The catalog declares the parameter \<^verbatim>\<open>P_ITEMS\<close> of
  \<^verbatim>\<open>pkg.show\<close> as \<^verbatim>\<open>PL/SQL TABLE\<close>. A request that sends the single value \<^verbatim>\<open>x\<close> under the name
  \<^verbatim>\<open>P_ITEMS\<close> gets the scalar string, not the one-element array: the type map holds the
  type under \<^verbatim>\<open>p_items\<close> and is read under \<^verbatim>\<open>P_ITEMS\<close>. The same request with the name
  written \<^verbatim>\<open>p_items\<close> gets the one-element array.
\<close>

theorem table_typed_argument_with_upper_case_name:
  "catalogReply exampleWorld ''pkg.show'' = CatalogOutBinds [''P_ITEMS'', ''P_NAME''] [''PL/SQL TABLE'', ''VARCHAR2'']
   \<and> snd (getFixArgsPara exampleWorld ''pkg.show'' [(''P_ITEMS'', Str ''x'')]) =
       Inr \<lparr>sql = ''pkg.show(P_ITEMS=>:p_P_ITEMS);'',
            bind = [(''p_P_ITEMS'', \<lparr>dir = BIND_IN, type = DB_STRING, val = Some (VString ''x''),
                                     maxSize = None, maxArraySize = None\<rparr>)]\<rparr>
   \<and> snd (getFixArgsPara exampleWorld ''pkg.show'' [(''p_items'', Str ''x'')]) =
       Inr \<lparr>sql = ''pkg.show(p_items=>:p_p_items);'',
            bind = [(''p_p_items'', \<lparr>dir = BIND_IN, type = DB_STRING, val = Some (VArray [''x'']),
                                     maxSize = None, maxArraySize = None\<rparr>)]\<rparr>"
proof -
  have h: "catalogReply exampleWorld ''pkg.show'' = CatalogOutBinds [''P_ITEMS'', ''P_NAME''] [''PL/SQL TABLE'', ''VARCHAR2'']"
    by (simp add: exampleWorld_def)
  show ?thesis
    using h by (simp add: getFixArgsPara_rows [OF h] fixArgsStep_eq getProp_def exampleWorld_types)
qed

text \<open>
  Claim C10. When the catalog answers with names and types, the type map that
  \<^verbatim>\<open>getArguments\<close> returns has exactly the lower-cased catalog names as keys, and under the
  lower-cased name of an entry that no later entry repeats it holds the type of that entry
  (the last declaration wins). \<^verbatim>\<open>getFixArgsPara\<close> reads the map under the HTTP name exactly
  as sent: a single-valued argument becomes a one-element array when the map holds
  \<^verbatim>\<open>PL/SQL TABLE\<close> under that very name, and the scalar string otherwise. Consequently a
  single-valued argument whose name is not the lower-casing of any string finds nothing in
  the map and is bound as the scalar string, whatever the catalog declares; and since
  lower-casing a lower-cased string changes nothing, this is so for every name that is not
  entirely lower-case (every name that lower-casing changes). \<open>toLowerCase w\<close> is the
  lower-casing of the engine; nothing is assumed of it but what is stated.
\<close>

theorem argument_types_keyed_by_lower_case_name:
  assumes "catalogReply w proc = CatalogOutBinds names types"
  shows "snd (getArguments w proc) = Inr (argTypesOf w names types)
    \<and> dom (argTypesOf w names types) = toLowerCase w ` set names
    \<and> (\<forall>i<length names.
          (\<forall>j<length names. i < j \<longrightarrow> toLowerCase w (names ! j) \<noteq> toLowerCase w (names ! i)) \<longrightarrow>
          argTypesOf w names types (toLowerCase w (names ! i)) = Some (at_index types i))
    \<and> (\<forall>argObj key x.
          distinct (map fst argObj) \<and> (key, Str x) \<in> set argObj \<longrightarrow>
          (\<exists>es para. getFixArgsPara w proc argObj = (es, Inr para)
             \<and> map_of (bind para) (''p_'' @ key) =
                 Some \<lparr>dir = BIND_IN, type = DB_STRING,
                       val = Some (if argTypesOf w names types key = Some (JString ''PL/SQL TABLE'')
                                   then VArray [x] else VString x),
                       maxSize = None, maxArraySize = None\<rparr>))
    \<and> (\<forall>argObj key x.
          distinct (map fst argObj) \<and> (key, Str x) \<in> set argObj \<and> key \<notin> range (toLowerCase w) \<longrightarrow>
          argTypesOf w names types key = None
          \<and> (\<exists>es para. getFixArgsPara w proc argObj = (es, Inr para)
               \<and> map_of (bind para) (''p_'' @ key) =
                   Some \<lparr>dir = BIND_IN, type = DB_STRING, val = Some (VString x),
                         maxSize = None, maxArraySize = None\<rparr>))
    \<and> ((\<forall>s. toLowerCase w (toLowerCase w s) = toLowerCase w s) \<longrightarrow>
        (\<forall>argObj key x.
          distinct (map fst argObj) \<and> (key, Str x) \<in> set argObj \<and> toLowerCase w key \<noteq> key \<longrightarrow>
          argTypesOf w names types key = None
          \<and> (\<exists>es para. getFixArgsPara w proc argObj = (es, Inr para)
               \<and> map_of (bind para) (''p_'' @ key) =
                   Some \<lparr>dir = BIND_IN, type = DB_STRING, val = Some (VString x),
                         maxSize = None, maxArraySize = None\<rparr>)))"
proof -
  have a: "snd (getArguments w proc) = Inr (argTypesOf w names types)"
    using assms by (simp add: getArguments_def)
  have c: "\<forall>i<length names.
          (\<forall>j<length names. i < j \<longrightarrow> toLowerCase w (names ! j) \<noteq> toLowerCase w (names ! i)) \<longrightarrow>
          argTypesOf w names types (toLowerCase w (names ! i)) = Some (at_index types i)"
    using argTypesOf_last by blast
  have d: "\<exists>es para. getFixArgsPara w proc argObj = (es, Inr para)
             \<and> map_of (bind para) (''p_'' @ key) =
                 Some \<lparr>dir = BIND_IN, type = DB_STRING,
                       val = Some (if argTypesOf w names types key = Some (JString ''PL/SQL TABLE'')
                                   then VArray [x] else VString x),
                       maxSize = None, maxArraySize = None\<rparr>"
    if "distinct (map fst argObj)" and "(key, Str x) \<in> set argObj" for argObj key x
    using getFixArgsPara_binding [OF assms that(1) that(2)] by simp
  have e: "argTypesOf w names types key = None
          \<and> (\<exists>es para. getFixArgsPara w proc argObj = (es, Inr para)
               \<and> map_of (bind para) (''p_'' @ key) =
                   Some \<lparr>dir = BIND_IN, type = DB_STRING, val = Some (VString x),
                         maxSize = None, maxArraySize = None\<rparr>)"
    if "\<forall>s. toLowerCase w (toLowerCase w s) = toLowerCase w s"
      and "distinct (map fst argObj)" and "(key, Str x) \<in> set argObj" and "toLowerCase w key \<noteq> key"
    for argObj key x
  proof -
    have n: "argTypesOf w names types key = None"
      using that(1) that(4) by (rule argTypesOf_not_lower)
    with d [OF that(2) that(3)] show ?thesis by simp
  qed
  have d': "\<forall>argObj key x.
          distinct (map fst argObj) \<and> (key, Str x) \<in> set argObj \<longrightarrow>
          (\<exists>es para. getFixArgsPara w proc argObj = (es, Inr para)
             \<and> map_of (bind para) (''p_'' @ key) =
                 Some \<lparr>dir = BIND_IN, type = DB_STRING,
                       val = Some (if argTypesOf w names types key = Some (JString ''PL/SQL TABLE'')
                                   then VArray [x] else VString x),
                       maxSize = None, maxArraySize = None\<rparr>)"
  proof (intro allI impI)
    fix argObj :: argObjType and key :: string and x :: string
    assume "distinct (map fst argObj) \<and> (key, Str x) \<in> set argObj"
    then have "distinct (map fst argObj)" and "(key, Str x) \<in> set argObj" by simp_all
    then show "\<exists>es para. getFixArgsPara w proc argObj = (es, Inr para)
             \<and> map_of (bind para) (''p_'' @ key) =
                 Some \<lparr>dir = BIND_IN, type = DB_STRING,
                       val = Some (if argTypesOf w names types key = Some (JString ''PL/SQL TABLE'')
                                   then VArray [x] else VString x),
                       maxSize = None, maxArraySize = None\<rparr>"
      by (rule d)
  qed
  have r: "argTypesOf w names types key = None
          \<and> (\<exists>es para. getFixArgsPara w proc argObj = (es, Inr para)
               \<and> map_of (bind para) (''p_'' @ key) =
                   Some \<lparr>dir = BIND_IN, type = DB_STRING, val = Some (VString x),
                         maxSize = None, maxArraySize = None\<rparr>)"
    if "distinct (map fst argObj)" and "(key, Str x) \<in> set argObj" and "key \<notin> range (toLowerCase w)"
    for argObj key x
  proof -
    from that(3) have "key \<notin> toLowerCase w ` set names" by blast
    then have n: "argTypesOf w names types key = None"
      using argTypesOf_dom [of w names types] by blast
    with d [OF that(1) that(2)] show ?thesis by simp
  qed
  have r': "\<forall>argObj key x.
          distinct (map fst argObj) \<and> (key, Str x) \<in> set argObj \<and> key \<notin> range (toLowerCase w) \<longrightarrow>
          argTypesOf w names types key = None
          \<and> (\<exists>es para. getFixArgsPara w proc argObj = (es, Inr para)
               \<and> map_of (bind para) (''p_'' @ key) =
                   Some \<lparr>dir = BIND_IN, type = DB_STRING, val = Some (VString x),
                         maxSize = None, maxArraySize = None\<rparr>)"
  proof (intro allI impI)
    fix argObj :: argObjType and key :: string and x :: string
    assume "distinct (map fst argObj) \<and> (key, Str x) \<in> set argObj \<and> key \<notin> range (toLowerCase w)"
    then have "distinct (map fst argObj)" and "(key, Str x) \<in> set argObj" and "key \<notin> range (toLowerCase w)"
      by simp_all
    then show "argTypesOf w names types key = None
          \<and> (\<exists>es para. getFixArgsPara w proc argObj = (es, Inr para)
               \<and> map_of (bind para) (''p_'' @ key) =
                   Some \<lparr>dir = BIND_IN, type = DB_STRING, val = Some (VString x),
                         maxSize = None, maxArraySize = None\<rparr>)"
      by (rule r)
  qed
  have e': "(\<forall>s. toLowerCase w (toLowerCase w s) = toLowerCase w s) \<longrightarrow>
        (\<forall>argObj key x.
          distinct (map fst argObj) \<and> (key, Str x) \<in> set argObj \<and> toLowerCase w key \<noteq> key \<longrightarrow>
          argTypesOf w names types key = None
          \<and> (\<exists>es para. getFixArgsPara w proc argObj = (es, Inr para)
               \<and> map_of (bind para) (''p_'' @ key) =
                   Some \<lparr>dir = BIND_IN, type = DB_STRING, val = Some (VString x),
                         maxSize = None, maxArraySize = None\<rparr>))"
  proof (intro allI impI)
    fix argObj :: argObjType and key :: string and x :: string
    assume i: "\<forall>s. toLowerCase w (toLowerCase w s) = toLowerCase w s"
    assume "distinct (map fst argObj) \<and> (key, Str x) \<in> set argObj \<and> toLowerCase w key \<noteq> key"
    then have "distinct (map fst argObj)" and "(key, Str x) \<in> set argObj" and "toLowerCase w key \<noteq> key"
      by simp_all
    with i show "argTypesOf w names types key = None
          \<and> (\<exists>es para. getFixArgsPara w proc argObj = (es, Inr para)
               \<and> map_of (bind para) (''p_'' @ key) =
                   Some \<lparr>dir = BIND_IN, type = DB_STRING, val = Some (VString x),
                         maxSize = None, maxArraySize = None\<rparr>)"
      by (rule e)
  qed
  show ?thesis
    by (intro conjI a argTypesOf_dom c d' r' e')
qed

theorem argument_types_keyed_by_lower_case_name_witness:
  "snd (getArguments exampleWorld ''pkg.show'') =
      Inr (argTypesOf exampleWorld [''P_ITEMS'', ''P_NAME''] [''PL/SQL TABLE'', ''VARCHAR2''])
   \<and> argTypesOf exampleWorld [''P_ITEMS'', ''P_NAME''] [''PL/SQL TABLE'', ''VARCHAR2''] ''p_items''
        = Some (JString ''PL/SQL TABLE'')
   \<and> (\<exists>es para. getFixArgsPara exampleWorld ''pkg.show'' [(''p_items'', Str ''x'')] = (es, Inr para)
         \<and> map_of (bind para) ''p_p_items'' =
             Some \<lparr>dir = BIND_IN, type = DB_STRING, val = Some (VArray [''x'']),
                   maxSize = None, maxArraySize = None\<rparr>)
   \<and> (\<exists>es para. getFixArgsPara exampleWorld ''pkg.show'' [(''p_name'', Str ''x'')] = (es, Inr para)
         \<and> map_of (bind para) ''p_p_name'' =
             Some \<lparr>dir = BIND_IN, type = DB_STRING, val = Some (VString ''x''),
                   maxSize = None, maxArraySize = None\<rparr>)
   \<and> toLowerCase exampleWorld ''P_ITEMS'' = ''p_items''
   \<and> argTypesOf exampleWorld [''P_ITEMS'', ''P_NAME''] [''PL/SQL TABLE'', ''VARCHAR2''] ''P_ITEMS'' = None
   \<and> (\<exists>es para. getFixArgsPara exampleWorld ''pkg.show'' [(''P_ITEMS'', Str ''x'')] = (es, Inr para)
         \<and> map_of (bind para) ''p_P_ITEMS'' =
             Some \<lparr>dir = BIND_IN, type = DB_STRING, val = Some (VString ''x''),
                   maxSize = None, maxArraySize = None\<rparr>)"
proof -
  let ?N = "[''P_ITEMS'', ''P_NAME'']"
  let ?T = "[''PL/SQL TABLE'', ''VARCHAR2'']"
  let ?m = "argTypesOf exampleWorld ?N ?T"
  have lc: "toLowerCase exampleWorld = asciiLowerCase"
    by (simp add: exampleWorld_def)
  have h: "catalogReply exampleWorld ''pkg.show'' = CatalogOutBinds ?N ?T"
    by (simp add: exampleWorld_def)
  note t = argument_types_keyed_by_lower_case_name [OF h]
  note t1 = t [THEN conjunct1]
  note t2 = t [THEN conjunct2, THEN conjunct1]
  note t3 = t [THEN conjunct2, THEN conjunct2, THEN conjunct1]
  note t4 = t [THEN conjunct2, THEN conjunct2, THEN conjunct2, THEN conjunct1]
  note t5 = t [THEN conjunct2, THEN conjunct2, THEN conjunct2, THEN conjunct2, THEN conjunct1]
  note t6 = t [THEN conjunct2, THEN conjunct2, THEN conjunct2, THEN conjunct2, THEN conjunct2]
  from t1 have a: "snd (getArguments exampleWorld ''pkg.show'') = Inr ?m" .
  \<comment> \<open>the last declaration wins, at the first entry\<close>
  from t3 have "0 < length ?N \<longrightarrow>
          (\<forall>j<length ?N. 0 < j \<longrightarrow> toLowerCase exampleWorld (?N ! j) \<noteq> toLowerCase exampleWorld (?N ! 0)) \<longrightarrow>
          ?m (toLowerCase exampleWorld (?N ! 0)) = Some (at_index ?T 0)"
    by (rule spec)
  moreover have "\<forall>j<length ?N. 0 < j \<longrightarrow> toLowerCase exampleWorld (?N ! j) \<noteq> toLowerCase exampleWorld (?N ! 0)"
    by (simp add: lc less_Suc_eq asciiLowerCase_def asciiLowerCase_char_def)
  ultimately have "?m (toLowerCase exampleWorld (?N ! 0)) = Some (at_index ?T 0)"
    by simp
  then have b: "?m ''p_items'' = Some (JString ''PL/SQL TABLE'')"
    by (simp add: lc asciiLowerCase_def asciiLowerCase_char_def at_index_def)
  \<comment> \<open>the lookup under the name as sent\<close>
  from t4 have look: "\<forall>argObj key x.
          distinct (map fst argObj) \<and> (key, Str x) \<in> set argObj \<longrightarrow>
          (\<exists>es para. getFixArgsPara exampleWorld ''pkg.show'' argObj = (es, Inr para)
             \<and> map_of (bind para) (''p_'' @ key) =
                 Some \<lparr>dir = BIND_IN, type = DB_STRING,
                       val = Some (if ?m key = Some (JString ''PL/SQL TABLE'')
                                   then VArray [x] else VString x),
                       maxSize = None, maxArraySize = None\<rparr>)" .
  from look [THEN spec, THEN spec, THEN spec]
  have "distinct (map fst [(''p_items'', Str ''x'')]) \<and> (''p_items'', Str ''x'') \<in> set [(''p_items'', Str ''x'')] \<longrightarrow>
          (\<exists>es para. getFixArgsPara exampleWorld ''pkg.show'' [(''p_items'', Str ''x'')] = (es, Inr para)
             \<and> map_of (bind para) (''p_'' @ ''p_items'') =
                 Some \<lparr>dir = BIND_IN, type = DB_STRING,
                       val = Some (if ?m ''p_items'' = Some (JString ''PL/SQL TABLE'')
                                   then VArray [''x''] else VString ''x''),
                       maxSize = None, maxArraySize = None\<rparr>)" .
  then have c: "\<exists>es para. getFixArgsPara exampleWorld ''pkg.show'' [(''p_items'', Str ''x'')] = (es, Inr para)
         \<and> map_of (bind para) ''p_p_items'' =
             Some \<lparr>dir = BIND_IN, type = DB_STRING, val = Some (VArray [''x'']),
                   maxSize = None, maxArraySize = None\<rparr>"
    by (simp add: b)
  from t3 have "1 < length ?N \<longrightarrow>
          (\<forall>j<length ?N. 1 < j \<longrightarrow> toLowerCase exampleWorld (?N ! j) \<noteq> toLowerCase exampleWorld (?N ! 1)) \<longrightarrow>
          ?m (toLowerCase exampleWorld (?N ! 1)) = Some (at_index ?T 1)"
    by (rule spec)
  then have n: "?m ''p_name'' = Some (JString ''VARCHAR2'')"
    by (simp add: lc less_Suc_eq asciiLowerCase_def asciiLowerCase_char_def at_index_def)
  from look [THEN spec, THEN spec, THEN spec]
  have "distinct (map fst [(''p_name'', Str ''x'')]) \<and> (''p_name'', Str ''x'') \<in> set [(''p_name'', Str ''x'')] \<longrightarrow>
          (\<exists>es para. getFixArgsPara exampleWorld ''pkg.show'' [(''p_name'', Str ''x'')] = (es, Inr para)
             \<and> map_of (bind para) (''p_'' @ ''p_name'') =
                 Some \<lparr>dir = BIND_IN, type = DB_STRING,
                       val = Some (if ?m ''p_name'' = Some (JString ''PL/SQL TABLE'')
                                   then VArray [''x''] else VString ''x''),
                       maxSize = None, maxArraySize = None\<rparr>)" .
  then have d: "\<exists>es para. getFixArgsPara exampleWorld ''pkg.show'' [(''p_name'', Str ''x'')] = (es, Inr para)
         \<and> map_of (bind para) ''p_p_name'' =
             Some \<lparr>dir = BIND_IN, type = DB_STRING, val = Some (VString ''x''),
                   maxSize = None, maxArraySize = None\<rparr>"
    by (simp add: n)
  \<comment> \<open>a name that is not entirely lower-case\<close>
  have idem: "\<forall>s. toLowerCase exampleWorld (toLowerCase exampleWorld s) = toLowerCase exampleWorld s"
    by (simp add: lc asciiLowerCase_idem)
  have low: "toLowerCase exampleWorld ''P_ITEMS'' = ''p_items''"
    by (simp add: lc asciiLowerCase_def asciiLowerCase_char_def)
  have nr: "''P_ITEMS'' \<notin> range (toLowerCase exampleWorld)"
  proof
    assume "''P_ITEMS'' \<in> range (toLowerCase exampleWorld)"
    then obtain s where "''P_ITEMS'' = asciiLowerCase s"
      by (auto simp: lc)
    then have "asciiLowerCase ''P_ITEMS'' = ''P_ITEMS''"
      by (simp add: asciiLowerCase_idem)
    then show False
      by (simp add: asciiLowerCase_def asciiLowerCase_char_def)
  qed
  from t5 [THEN spec, THEN spec, THEN spec]
  have "distinct (map fst [(''P_ITEMS'', Str ''x'')]) \<and> (''P_ITEMS'', Str ''x'') \<in> set [(''P_ITEMS'', Str ''x'')]
          \<and> ''P_ITEMS'' \<notin> range (toLowerCase exampleWorld) \<longrightarrow>
          ?m ''P_ITEMS'' = None
          \<and> (\<exists>es para. getFixArgsPara exampleWorld ''pkg.show'' [(''P_ITEMS'', Str ''x'')] = (es, Inr para)
               \<and> map_of (bind para) (''p_'' @ ''P_ITEMS'') =
                   Some \<lparr>dir = BIND_IN, type = DB_STRING, val = Some (VString ''x''),
                         maxSize = None, maxArraySize = None\<rparr>)" .
  with nr have e: "?m ''P_ITEMS'' = None"
    by simp
  from t6 [THEN mp, OF idem, THEN spec, THEN spec, THEN spec]
  have "distinct (map fst [(''P_ITEMS'', Str ''x'')]) \<and> (''P_ITEMS'', Str ''x'') \<in> set [(''P_ITEMS'', Str ''x'')]
          \<and> toLowerCase exampleWorld ''P_ITEMS'' \<noteq> ''P_ITEMS'' \<longrightarrow>
          ?m ''P_ITEMS'' = None
          \<and> (\<exists>es para. getFixArgsPara exampleWorld ''pkg.show'' [(''P_ITEMS'', Str ''x'')] = (es, Inr para)
               \<and> map_of (bind para) (''p_'' @ ''P_ITEMS'') =
                   Some \<lparr>dir = BIND_IN, type = DB_STRING, val = Some (VString ''x''),
                         maxSize = None, maxArraySize = None\<rparr>)" .
  then have f: "\<exists>es para. getFixArgsPara exampleWorld ''pkg.show'' [(''P_ITEMS'', Str ''x'')] = (es, Inr para)
         \<and> map_of (bind para) ''p_P_ITEMS'' =
             Some \<lparr>dir = BIND_IN, type = DB_STRING, val = Some (VString ''x''),
                   maxSize = None, maxArraySize = None\<rparr>"
    by (simp add: low)
  from a b c d low e f show ?thesis by (intro conjI)
qed

text \<open>
  Claim C8. The envelope has the nine keys \<^verbatim>\<open>cgicount\<close>, \<^verbatim>\<open>cginames\<close>, \<^verbatim>\<open>cgivalues\<close>,
  \<^verbatim>\<open>htbuflen\<close>, \<^verbatim>\<open>fileType\<close>, \<^verbatim>\<open>fileSize\<close>, \<^verbatim>\<open>fileBlob\<close>, \<^verbatim>\<open>lines\<close>, \<^verbatim>\<open>irows\<close>. For every plan
  that \<^verbatim>\<open>getProcedure\<close> produces, in any of its three modes, no key of the plan's bindings
  is one of them, and after \<^verbatim>\<open>Object.assign\<close> of the plan's bindings every envelope key still
  has its envelope binding. In fixed-argument mode the keys of the plan's bindings are the
  argument names with \<^verbatim>\<open>p_\<close> in front, in the order of the arguments.
\<close>

theorem plan_bindings_disjoint_from_envelope:
  assumes "getProcedure w proc argObj opts = (es, Inr para)"
  shows "map fst (envelope cgiObj l) =
           [''cgicount'', ''cginames'', ''cgivalues'', ''htbuflen'', ''fileType'', ''fileSize'',
            ''fileBlob'', ''lines'', ''irows'']
    \<and> set (map fst (bind para)) \<inter> set (map fst (envelope cgiObj l)) = {}
    \<and> (\<forall>kd \<in> set (envelope cgiObj l).
          map_of (Object_assign (envelope cgiObj l) (bind para)) (fst kd) = Some (snd kd))
    \<and> ((\<forall>pa. pathAlias opts = Some pa \<longrightarrow> alias pa \<noteq> proc) \<and> take 1 proc \<noteq> ''!'' \<longrightarrow>
          set (map fst (bind para)) = (\<lambda>kv. ''p_'' @ fst kv) ` set argObj
          \<and> (distinct (map fst argObj) \<longrightarrow> map fst (bind para) = map (\<lambda>kv. ''p_'' @ fst kv) argObj))"
proof -
  have disj: "set (map fst (bind para)) \<inter> set (map fst (envelope cgiObj l)) = {}"
    using getProcedure_keys_disjoint [OF assms, of cgiObj l] by simp
  have keep: "map_of (Object_assign (envelope cgiObj l) (bind para)) (fst kd) = Some (snd kd)"
    if "kd \<in> set (envelope cgiObj l)" for kd
  proof -
    from that have "fst kd \<in> set (map fst (envelope cgiObj l))" by simp
    with disj have "fst kd \<notin> fst ` set (bind para)" by auto
    then have "map_of (Object_assign (envelope cgiObj l) (bind para)) (fst kd) = map_of (envelope cgiObj l) (fst kd)"
      by (rule Object_assign_other)
    also have "\<dots> = Some (snd kd)"
      using that envelope_distinct [of cgiObj l] by simp
    finally show ?thesis .
  qed
  have fixed: "set (map fst (bind para)) = (\<lambda>kv. ''p_'' @ fst kv) ` set argObj
          \<and> (distinct (map fst argObj) \<longrightarrow> map fst (bind para) = map (\<lambda>kv. ''p_'' @ fst kv) argObj)"
    if "\<forall>pa. pathAlias opts = Some pa \<longrightarrow> alias pa \<noteq> proc" and "take 1 proc \<noteq> ''!''"
  proof -
    from that have "getProcedure w proc argObj opts = getFixArgsPara w proc argObj"
      by (rule getProcedure_fix)
    with assms have "getFixArgsPara w proc argObj = (es, Inr para)" by simp
    from getFixArgsPara_keys [OF this] show ?thesis by simp
  qed
  from envelope_keys disj keep fixed show ?thesis by blast
qed

theorem plan_bindings_disjoint_from_envelope_witness:
  "\<exists>es para. getProcedure exampleWorld ''pkg.show'' [(''p_items'', Str ''x''), (''p_name'', Str ''y'')] exampleOptions = (es, Inr para)
     \<and> set (map fst (bind para)) \<inter> set (map fst (envelope [(''SERVER_SOFTWARE'', ''NodeJS'')] 7)) = {}
     \<and> map_of (Object_assign (envelope [(''SERVER_SOFTWARE'', ''NodeJS'')] 7) (bind para)) ''irows'' =
         Some \<lparr>dir = BIND_INOUT, type = DB_NUMBER, val = Some (VNumber 100000),
               maxSize = None, maxArraySize = None\<rparr>
     \<and> map fst (bind para) = [''p_p_items'', ''p_p_name'']"
proof -
  have r: "catalogReply exampleWorld ''pkg.show'' = CatalogOutBinds [''P_ITEMS'', ''P_NAME''] [''PL/SQL TABLE'', ''VARCHAR2'']"
    by (simp add: exampleWorld_def)
  obtain es para where
    h: "getProcedure exampleWorld ''pkg.show'' [(''p_items'', Str ''x''), (''p_name'', Str ''y'')] exampleOptions = (es, Inr para)"
    by (simp add: getProcedure_def exampleOptions_def getFixArgsPara_rows [OF r])
  note t = plan_bindings_disjoint_from_envelope [OF h, of "[(''SERVER_SOFTWARE'', ''NodeJS'')]" 7]
  from t have a: "set (map fst (bind para)) \<inter> set (map fst (envelope [(''SERVER_SOFTWARE'', ''NodeJS'')] 7)) = {}"
    by blast
  from t have "\<forall>kd \<in> set (envelope [(''SERVER_SOFTWARE'', ''NodeJS'')] 7).
          map_of (Object_assign (envelope [(''SERVER_SOFTWARE'', ''NodeJS'')] 7) (bind para)) (fst kd) = Some (snd kd)"
    by blast
  moreover have "(''irows'', \<lparr>dir = BIND_INOUT, type = DB_NUMBER, val = Some (VNumber 100000),
               maxSize = None, maxArraySize = None\<rparr>) \<in> set (envelope [(''SERVER_SOFTWARE'', ''NodeJS'')] 7)"
    by (simp add: envelope_def MAX_IROWS_def)
  ultimately have b: "map_of (Object_assign (envelope [(''SERVER_SOFTWARE'', ''NodeJS'')] 7) (bind para)) ''irows'' =
         Some \<lparr>dir = BIND_INOUT, type = DB_NUMBER, val = Some (VNumber 100000),
               maxSize = None, maxArraySize = None\<rparr>"
    by force
  from t have "(\<forall>pa. pathAlias exampleOptions = Some pa \<longrightarrow> alias pa \<noteq> ''pkg.show'') \<and> take 1 ''pkg.show'' \<noteq> ''!'' \<longrightarrow>
          set (map fst (bind para)) = (\<lambda>kv. ''p_'' @ fst kv) ` set [(''p_items'', Str ''x''), (''p_name'', Str ''y'')]
          \<and> (distinct (map fst [(''p_items'', Str ''x''), (''p_name'', Str ''y'')]) \<longrightarrow>
               map fst (bind para) = map (\<lambda>kv. ''p_'' @ fst kv) [(''p_items'', Str ''x''), (''p_name'', Str ''y'')])"
    by blast
  then have c: "map fst (bind para) = [''p_p_items'', ''p_p_name'']"
    by (simp add: exampleOptions_def)
  show ?thesis by (intro exI [of _ es] exI [of _ para] conjI h a b c)
qed

section \<open>Lemmas about the handler\<close>

lemma andThen_Inl: "m = (es, Inl e) \<Longrightarrow> andThen m f = (es, Inl e)"
  by (simp add: andThen_def)

lemma andThen_Inr: "m = (es, Inr x) \<Longrightarrow> andThen m f = (es @ fst (f x), snd (f x))"
  by (simp add: andThen_def split: prod.splits)

lemma andThen_events:
  assumes "\<forall>e \<in> set (fst m). P e" and "\<And>x. \<forall>e \<in> set (fst (f x)). P e"
  shows "\<forall>e \<in> set (fst (andThen m f)). P e"
proof (cases m)
  case (Pair es r)
  show ?thesis
  proof (cases r)
    case (Inl e)
    with Pair assms(1) show ?thesis by (simp add: andThen_def)
  next
    case (Inr x)
    with Pair have "andThen m f = (es @ fst (f x), snd (f x))" by (simp add: andThen_Inr)
    with Pair assms(1) assms(2) [of x] show ?thesis by auto
  qed
qed

lemma getProcedure_events:
  "fst (getProcedure w proc argObj opts) = []
   \<or> fst (getProcedure w proc argObj opts) = [EvExecute (join ''\<newline>'' getArguments_sql) (getArguments_bind proc)]"
  by (simp add: getProcedure_def getFixArgsPara_def getArguments_def andThen_def
      split: option.splits catalog_reply.splits prod.splits)


lemma getProcedureSQL_not_catalog: "getProcedureSQL p \<noteq> join ''\<newline>'' getArguments_sql"
  by (simp add: getProcedureSQL_def getArguments_sql_def)

lemma getProcedureSQL_not_validation: "getProcedureSQL p \<noteq> validation_query f"
  by (simp add: getProcedureSQL_def validation_query_def)

lemma uploadStep_events:
  "fst (uploadStep w files opts) = [] \<or> (\<exists>table. fst (uploadStep w files opts) = [EvUploadFiles files table])"
  by (simp add: uploadStep_def split: option.splits)



lemma invokeProcedure_prefix:
  assumes "uploadStep w files opts = (es1, Inr ())"
    and "getProcedure w proc argObj opts = (es2, Inr para)"
    and "validateProcedure w proc opts = (es3, Inr v)"
  shows "invokeProcedure w proc argObj cgiObj files opts =
    (es1 @ es2 @ es3 @
       fst (andThen ([EvCreateLob], createLob w) (\<lambda>fileBlob0.
            andThen (executeProcedure w cgiObj para v fileBlob0) (\<lambda>result.
            andThen (processResults cgiObj para result) (\<lambda>ob.
            parseAndSend w cgiObj fileBlob0 ob)))),
     snd (andThen ([EvCreateLob], createLob w) (\<lambda>fileBlob0.
            andThen (executeProcedure w cgiObj para v fileBlob0) (\<lambda>result.
            andThen (processResults cgiObj para result) (\<lambda>ob.
            parseAndSend w cgiObj fileBlob0 ob)))))"
  unfolding invokeProcedure_def
  by (simp add: andThen_Inr [OF assms(1)] andThen_Inr [OF assms(2)] andThen_Inr [OF assms(3)])

lemma validateProcedure_false:
  assumes "validationFunction_of opts = Some f"
    and "validationReply w f proc = ValidationResult r" and "r \<noteq> Some 1"
  shows "validateProcedure w proc opts =
           ([EvExecute (validation_query f) (validation_bind proc)], Inr False)"
  using assms by (cases r) (auto simp: validateProcedure_def)

lemma validateProcedure_throws:
  assumes "validationFunction_of opts = Some f"
    and "validationReply w f proc = ValidationThrows t"
  shows "validateProcedure w proc opts =
           ([EvExecute (validation_query f) (validation_bind proc)],
            Inl (Error ''Error during the validation of the procedure (RequestValidationFunction)''))"
  using assms by (simp add: validateProcedure_def)

lemma parseAndSend_first:
  "\<exists>es. fst (parseAndSend w cgiObj l ob) = EvParse (join [] (lines ob)) # es"
  by (simp add: parseAndSend_def Let_def andThen_def split: prod.splits sum.splits)

lemma parseAndSend_ok:
  assumes "parse w (join [] (lines ob)) = Inr pg" and "fileBlob ob = None"
    and "send w (pg\<lparr>head_server := map_of cgiObj ''SERVER_SOFTWARE'', file_fileType := fileType ob,
                    file_fileSize := fileSize ob, file_fileBlob := None\<rparr>) = None"
  shows "parseAndSend w cgiObj l ob =
    ([EvParse (join [] (lines ob)),
      EvSend (pg\<lparr>head_server := map_of cgiObj ''SERVER_SOFTWARE'', file_fileType := fileType ob,
                    file_fileSize := fileSize ob, file_fileBlob := None\<rparr>),
      EvClose l], Inr ())"
  using assms by (simp add: parseAndSend_def Let_def andThen_def)

lemma envelope_irows_lines:
  "map_of (envelope cgiObj l) ''irows'' =
      Some \<lparr>dir = BIND_INOUT, type = DB_NUMBER, val = Some (VNumber 100000),
            maxSize = None, maxArraySize = None\<rparr>"
  "map_of (envelope cgiObj l) ''lines'' =
      Some \<lparr>dir = BIND_OUT, type = DB_STRING, val = None,
            maxSize = Some 126, maxArraySize = Some 100000\<rparr>"
  by (simp_all add: envelope_def MAX_IROWS_def HTBUF_LEN_def)

section \<open>Properties of the handler\<close>

text \<open>
  Claim C4. Take a request whose upload step and call plan succeed, whose validation
  passes and whose invocation returns out-binds with a row count \<open>n\<close>. If \<open>n\<close> is at most
  100000 (so also when it is exactly 100000) the handler goes on to parse the page: its
  outcome is the outcome of parsing and sending, whose first step is the call of the
  parser on the joined lines, and it is a success when the parser and the sender succeed.
  If \<open>n\<close> is above 100000 the handler stops with a ProcedureError that carries the CGI
  mapping and the plan. The bindings sent with the invocation bind \<^verbatim>\<open>irows\<close> to 100000
  and give \<^verbatim>\<open>lines\<close> room for 100000 rows.
\<close>

theorem row_count_ceiling:
  assumes "uploadStep w files opts = (es1, Inr ())"
    and "getProcedure w proc argObj opts = (es2, Inr para)"
    and "validateProcedure w proc opts = (es3, Inr True)"
    and "createLob w = Inr l"
    and "procedureReply w (getProcedureSQL (sql para)) (Object_assign (envelope cgiObj l) (bind para))
           = ExecResult ob"
    and "irows ob = Some n"
  shows "(n \<le> 100000 \<longrightarrow>
            invokeProcedure w proc argObj cgiObj files opts =
              (es1 @ es2 @ es3 @
                 [EvCreateLob,
                  EvExecute (getProcedureSQL (sql para)) (Object_assign (envelope cgiObj l) (bind para))]
                 @ fst (parseAndSend w cgiObj l ob),
               snd (parseAndSend w cgiObj l ob))
            \<and> (\<exists>es. fst (parseAndSend w cgiObj l ob) = EvParse (join [] (lines ob)) # es)
            \<and> (\<forall>pg. parse w (join [] (lines ob)) = Inr pg \<and> fileBlob ob = None
                  \<and> send w (pg\<lparr>head_server := map_of cgiObj ''SERVER_SOFTWARE'',
                                 file_fileType := fileType ob, file_fileSize := fileSize ob,
                                 file_fileBlob := None\<rparr>) = None
                  \<longrightarrow> snd (invokeProcedure w proc argObj cgiObj files opts) = Inr ()))
       \<and> (n > 100000 \<longrightarrow>
            invokeProcedure w proc argObj cgiObj files opts =
              (es1 @ es2 @ es3 @
                 [EvCreateLob,
                  EvExecute (getProcedureSQL (sql para)) (Object_assign (envelope cgiObj l) (bind para))],
               Inl (ProcedureError
                      (''Error when retrieving rows. irows='' @ [CHR 0x22] @ show_int n @ [CHR 0x22])
                      cgiObj (sql para) (bind para))))
       \<and> map_of (Object_assign (envelope cgiObj l) (bind para)) ''irows'' =
            Some \<lparr>dir = BIND_INOUT, type = DB_NUMBER, val = Some (VNumber 100000),
                  maxSize = None, maxArraySize = None\<rparr>
       \<and> map_of (Object_assign (envelope cgiObj l) (bind para)) ''lines'' =
            Some \<lparr>dir = BIND_OUT, type = DB_STRING, val = None,
                  maxSize = Some 126, maxArraySize = Some 100000\<rparr>"
proof -
  note pre = invokeProcedure_prefix [OF assms(1) assms(2) assms(3), of cgiObj]
  have run: "invokeProcedure w proc argObj cgiObj files opts =
      (es1 @ es2 @ es3 @
         [EvCreateLob,
          EvExecute (getProcedureSQL (sql para)) (Object_assign (envelope cgiObj l) (bind para))]
         @ fst (andThen (processResults cgiObj para (Some ob)) (\<lambda>ob. parseAndSend w cgiObj l ob)),
       snd (andThen (processResults cgiObj para (Some ob)) (\<lambda>ob. parseAndSend w cgiObj l ob)))"
    using assms(4) assms(5)
    by (simp add: pre andThen_def executeProcedure_def Let_def split: prod.splits)
  have low: "andThen (processResults cgiObj para (Some ob)) (\<lambda>ob. parseAndSend w cgiObj l ob)
               = parseAndSend w cgiObj l ob" if "n \<le> 100000"
    using that assms(6) by (simp add: processResults_def MAX_IROWS_def andThen_def split: prod.splits)
  have high: "andThen (processResults cgiObj para (Some ob)) (\<lambda>ob. parseAndSend w cgiObj l ob)
               = ([], Inl (ProcedureError
                      (''Error when retrieving rows. irows='' @ [CHR 0x22] @ show_int n @ [CHR 0x22])
                      cgiObj (sql para) (bind para)))" if "n > 100000"
    using that assms(6) by (simp add: processResults_def MAX_IROWS_def andThen_def)
  have a: "invokeProcedure w proc argObj cgiObj files opts =
              (es1 @ es2 @ es3 @
                 [EvCreateLob,
                  EvExecute (getProcedureSQL (sql para)) (Object_assign (envelope cgiObj l) (bind para))]
                 @ fst (parseAndSend w cgiObj l ob),
               snd (parseAndSend w cgiObj l ob))" if "n \<le> 100000"
    using run low [OF that] by simp
  have b: "snd (invokeProcedure w proc argObj cgiObj files opts) = Inr ()"
    if "n \<le> 100000" and "parse w (join [] (lines ob)) = Inr pg" and "fileBlob ob = None"
      and "send w (pg\<lparr>head_server := map_of cgiObj ''SERVER_SOFTWARE'',
                                 file_fileType := fileType ob, file_fileSize := fileSize ob,
                                 file_fileBlob := None\<rparr>) = None" for pg
    using a [OF that(1)] parseAndSend_ok [OF that(2) that(3) that(4), of l] by simp
  have c: "invokeProcedure w proc argObj cgiObj files opts =
              (es1 @ es2 @ es3 @
                 [EvCreateLob,
                  EvExecute (getProcedureSQL (sql para)) (Object_assign (envelope cgiObj l) (bind para))],
               Inl (ProcedureError
                      (''Error when retrieving rows. irows='' @ [CHR 0x22] @ show_int n @ [CHR 0x22])
                      cgiObj (sql para) (bind para)))" if "n > 100000"
    using run high [OF that] by simp
  have disj: "fst ` set (bind para) \<inter> set (map fst (envelope cgiObj l)) = {}"
    by (rule getProcedure_keys_disjoint [OF assms(2)])
  have "''irows'' \<notin> fst ` set (bind para)" and "''lines'' \<notin> fst ` set (bind para)"
    using disj by (auto simp: envelope_keys)
  then have d: "map_of (Object_assign (envelope cgiObj l) (bind para)) ''irows'' =
            Some \<lparr>dir = BIND_INOUT, type = DB_NUMBER, val = Some (VNumber 100000),
                  maxSize = None, maxArraySize = None\<rparr>"
    and e: "map_of (Object_assign (envelope cgiObj l) (bind para)) ''lines'' =
            Some \<lparr>dir = BIND_OUT, type = DB_STRING, val = None,
                  maxSize = Some 126, maxArraySize = Some 100000\<rparr>"
    by (simp_all add: Object_assign_other envelope_irows_lines)
  from a b c d e parseAndSend_first [of w cgiObj l ob] show ?thesis by blast
qed

theorem row_count_ceiling_witness:
  "snd (invokeProcedure exampleWorld ''!show'' [(''a'', Str ''1'')] [(''SERVER_SOFTWARE'', ''NodeJS'')] []
          exampleOptions) = Inr ()
   \<and> snd (invokeProcedure
            (exampleWorld\<lparr>procedureReply := (\<lambda>s b. ExecResult \<lparr>lines = [''Hello''], irows = Some 100001,
                              fileType = None, fileSize = None, fileBlob = None\<rparr>)\<rparr>)
            ''!show'' [(''a'', Str ''1'')] [(''SERVER_SOFTWARE'', ''NodeJS'')] [] exampleOptions) =
       Inl (ProcedureError
              (''Error when retrieving rows. irows='' @ [CHR 0x22] @ show_int 100001 @ [CHR 0x22])
              [(''SERVER_SOFTWARE'', ''NodeJS'')]
              (sql (getVarArgsPara ''!show'' [(''a'', Str ''1'')]))
              (bind (getVarArgsPara ''!show'' [(''a'', Str ''1'')])))"
proof -
  let ?ob = "\<lparr>lines = [''Hello, '', ''world''], irows = Some 100000,
              fileType = None, fileSize = None, fileBlob = None\<rparr>"
  let ?ob' = "\<lparr>lines = [''Hello''], irows = Some 100001,
              fileType = None, fileSize = None, fileBlob = None\<rparr>"
  let ?w' = "exampleWorld\<lparr>procedureReply := (\<lambda>s b. ExecResult ?ob')\<rparr>"
  let ?args = "[(''a'', Str ''1'')]"
  let ?cgi = "[(''SERVER_SOFTWARE'', ''NodeJS'')]"
  let ?para = "getVarArgsPara ''!show'' ?args"
  have u: "uploadStep w [] exampleOptions = ([], Inr ())" for w
    by (simp add: uploadStep_def exampleOptions_def)
  have g: "getProcedure w ''!show'' ?args exampleOptions = ([], Inr ?para)" for w
    by (simp add: getProcedure_def exampleOptions_def)
  have v: "validateProcedure w ''!show'' exampleOptions = ([], Inr True)" for w
    by (simp add: validateProcedure_def validationFunction_of_def exampleOptions_def)
  have l: "createLob exampleWorld = Inr 7" and l': "createLob ?w' = Inr 7"
    by (simp_all add: exampleWorld_def)
  have r: "procedureReply exampleWorld (getProcedureSQL (sql ?para)) (Object_assign (envelope ?cgi 7) (bind ?para))
             = ExecResult ?ob"
    by (simp add: exampleWorld_def)
  have r': "procedureReply ?w' (getProcedureSQL (sql ?para)) (Object_assign (envelope ?cgi 7) (bind ?para))
             = ExecResult ?ob'"
    by simp
  have i: "irows ?ob = Some 100000" and i': "irows ?ob' = Some 100001"
    by simp_all
  have p: "parse exampleWorld (join [] (lines ?ob)) = Inr (examplePage (join [] (lines ?ob)))"
    by (simp add: exampleWorld_def)
  have s: "send exampleWorld pg = None" for pg
    by (simp add: exampleWorld_def)
  have le: "(100000::int) \<le> 100000" and gt: "(100001::int) > 100000"
    by simp_all
  from row_count_ceiling [OF u g v l r i] le
  have "\<forall>pg. parse exampleWorld (join [] (lines ?ob)) = Inr pg \<and> fileBlob ?ob = None
            \<and> send exampleWorld (pg\<lparr>head_server := map_of ?cgi ''SERVER_SOFTWARE'',
                                 file_fileType := fileType ?ob, file_fileSize := fileSize ?ob,
                                 file_fileBlob := None\<rparr>) = None
            \<longrightarrow> snd (invokeProcedure exampleWorld ''!show'' ?args ?cgi [] exampleOptions) = Inr ()"
    by blast
  then have "parse exampleWorld (join [] (lines ?ob)) = Inr (examplePage (join [] (lines ?ob)))
            \<and> fileBlob ?ob = None
            \<and> send exampleWorld ((examplePage (join [] (lines ?ob)))\<lparr>head_server := map_of ?cgi ''SERVER_SOFTWARE'',
                                 file_fileType := fileType ?ob, file_fileSize := fileSize ?ob,
                                 file_fileBlob := None\<rparr>) = None
            \<longrightarrow> snd (invokeProcedure exampleWorld ''!show'' ?args ?cgi [] exampleOptions) = Inr ()"
    by (rule spec)
  moreover have "fileBlob ?ob = None"
    by simp
  ultimately have a: "snd (invokeProcedure exampleWorld ''!show'' ?args ?cgi [] exampleOptions) = Inr ()"
    using p s by blast
  from row_count_ceiling [OF u g v l' r' i'] gt
  have "invokeProcedure ?w' ''!show'' ?args ?cgi [] exampleOptions =
          ([] @ [] @ [] @
             [EvCreateLob,
              EvExecute (getProcedureSQL (sql ?para)) (Object_assign (envelope ?cgi 7) (bind ?para))],
           Inl (ProcedureError
              (''Error when retrieving rows. irows='' @ [CHR 0x22] @ show_int 100001 @ [CHR 0x22])
              ?cgi (sql ?para) (bind ?para)))"
    by blast
  then have b: "snd (invokeProcedure ?w' ''!show'' ?args ?cgi [] exampleOptions) =
       Inl (ProcedureError
              (''Error when retrieving rows. irows='' @ [CHR 0x22] @ show_int 100001 @ [CHR 0x22])
              ?cgi (sql ?para) (bind ?para))"
    by simp
  from a b show ?thesis by (rule conjI)
qed

text \<open>
  Claim C5. Take a request whose upload step and call plan succeed and whose configured
  validation function answers with anything but 1. No statement the handler executes is
  the invocation statement of the target procedure. When the output buffer can be created
  and the parser and the sender succeed, the handler ends normally: after the validation
  query it creates the buffer, parses the fixed text \<^verbatim>\<open>No access to this.\<close>, sends the parsed
  page with its three file fields empty, and closes the buffer.
\<close>

theorem validation_false_soft_deny:
  assumes "uploadStep w files opts = (es1, Inr ())"
    and "getProcedure w proc argObj opts = (es2, Inr para)"
    and "validationFunction_of opts = Some f"
    and "validationReply w f proc = ValidationResult r"
    and "r \<noteq> Some 1"
  shows "(\<forall>s b. EvExecute s b \<in> set (fst (invokeProcedure w proc argObj cgiObj files opts))
            \<longrightarrow> s \<noteq> getProcedureSQL (sql para))
    \<and> (\<forall>l pg. createLob w = Inr l \<and> parse w ''No access to this.'' = Inr pg
          \<and> send w (pg\<lparr>head_server := map_of cgiObj ''SERVER_SOFTWARE'', file_fileType := None,
                         file_fileSize := None, file_fileBlob := None\<rparr>) = None
          \<longrightarrow> invokeProcedure w proc argObj cgiObj files opts =
                (es1 @ es2 @
                   [EvExecute (validation_query f) (validation_bind proc),
                    EvCreateLob,
                    EvParse ''No access to this.'',
                    EvSend (pg\<lparr>head_server := map_of cgiObj ''SERVER_SOFTWARE'', file_fileType := None,
                                 file_fileSize := None, file_fileBlob := None\<rparr>),
                    EvClose l],
                 Inr ()))"
proof -
  let ?tail = "andThen ([EvCreateLob], createLob w) (\<lambda>fileBlob0.
            andThen (executeProcedure w cgiObj para False fileBlob0) (\<lambda>result.
            andThen (processResults cgiObj para result) (\<lambda>ob.
            parseAndSend w cgiObj fileBlob0 ob)))"
  note v = validateProcedure_false [OF assms(3) assms(4) assms(5)]
  note pre = invokeProcedure_prefix [OF assms(1) assms(2) v, of cgiObj]
  have tail: "\<forall>e \<in> set (fst ?tail). \<forall>s b. e \<noteq> EvExecute s b"
  proof (intro andThen_events)
    show "\<forall>e \<in> set (fst ([EvCreateLob], createLob w)). \<forall>s b. e \<noteq> EvExecute s b"
      by simp
    show "\<forall>e \<in> set (fst (executeProcedure w cgiObj para False x)). \<forall>s b. e \<noteq> EvExecute s b" for x
      by (simp add: executeProcedure_def Let_def)
    show "\<forall>e \<in> set (fst (processResults cgiObj para x)). \<forall>s b. e \<noteq> EvExecute s b" for x
      by (simp add: processResults_def split: option.splits)
    show "\<forall>e \<in> set (fst (parseAndSend w cgiObj x y)). \<forall>s b. e \<noteq> EvExecute s b" for x y
      unfolding parseAndSend_def Let_def
      by (intro andThen_events) (simp_all split: option.splits)
  qed
  have e1: "\<forall>e \<in> set es1. \<forall>s b. e \<noteq> EvExecute s b"
    using uploadStep_events [of w files opts] assms(1) by auto
  have e2: "\<forall>e \<in> set es2. \<forall>b. e \<noteq> EvExecute (getProcedureSQL (sql para)) b"
    using getProcedure_events [of w proc argObj opts] assms(2) getProcedureSQL_not_catalog [of "sql para"]
    by auto
  have a: "s \<noteq> getProcedureSQL (sql para)"
    if "EvExecute s b \<in> set (fst (invokeProcedure w proc argObj cgiObj files opts))" for s b
  proof -
    from that have "EvExecute s b \<in> set es1 \<or> EvExecute s b \<in> set es2
        \<or> EvExecute s b = EvExecute (validation_query f) (validation_bind proc)
        \<or> EvExecute s b \<in> set (fst ?tail)"
      by (auto simp: pre)
    with e1 e2 tail getProcedureSQL_not_validation [of "sql para" f] show ?thesis
      by (metis event.inject(2))
  qed
  have b: "invokeProcedure w proc argObj cgiObj files opts =
                (es1 @ es2 @
                   [EvExecute (validation_query f) (validation_bind proc),
                    EvCreateLob,
                    EvParse ''No access to this.'',
                    EvSend (pg\<lparr>head_server := map_of cgiObj ''SERVER_SOFTWARE'', file_fileType := None,
                                 file_fileSize := None, file_fileBlob := None\<rparr>),
                    EvClose l],
                 Inr ())"
    if "createLob w = Inr l" and "parse w ''No access to this.'' = Inr pg"
      and "send w (pg\<lparr>head_server := map_of cgiObj ''SERVER_SOFTWARE'', file_fileType := None,
                         file_fileSize := None, file_fileBlob := None\<rparr>) = None" for l pg
  proof -
    have "parseAndSend w cgiObj l accessDenied =
      ([EvParse ''No access to this.'',
        EvSend (pg\<lparr>head_server := map_of cgiObj ''SERVER_SOFTWARE'', file_fileType := None,
                                 file_fileSize := None, file_fileBlob := None\<rparr>),
        EvClose l], Inr ())"
      using parseAndSend_ok [of w accessDenied pg cgiObj l] that(2) that(3)
      by (simp add: accessDenied_def)
    then have "?tail = ([EvCreateLob,
                    EvParse ''No access to this.'',
                    EvSend (pg\<lparr>head_server := map_of cgiObj ''SERVER_SOFTWARE'', file_fileType := None,
                                 file_fileSize := None, file_fileBlob := None\<rparr>),
                    EvClose l], Inr ())"
      using that(1)
      by (simp add: andThen_def executeProcedure_def Let_def processResults_def accessDenied_def)
    then show ?thesis by (simp add: pre)
  qed
  from a b show ?thesis by blast
qed

theorem validation_false_soft_deny_witness:
  "invokeProcedure (exampleWorld\<lparr>validationReply := (\<lambda>f proc. ValidationResult (Some 0))\<rparr>)
      ''!show'' [(''a'', Str ''1'')] [(''SERVER_SOFTWARE'', ''NodeJS'')] []
      (exampleOptions\<lparr>requestValidation := Some ''auth.allowed''\<rparr>) =
     ([EvExecute (validation_query ''auth.allowed'') (validation_bind ''!show''),
       EvCreateLob,
       EvParse ''No access to this.'',
       EvSend ((examplePage ''No access to this.'')
                 \<lparr>head_server := Some ''NodeJS'', file_fileType := None,
                  file_fileSize := None, file_fileBlob := None\<rparr>),
       EvClose 7],
      Inr ())"
proof -
  let ?w = "exampleWorld\<lparr>validationReply := (\<lambda>f proc. ValidationResult (Some 0))\<rparr>"
  let ?opts = "exampleOptions\<lparr>requestValidation := Some ''auth.allowed''\<rparr>"
  let ?args = "[(''a'', Str ''1'')]"
  let ?cgi = "[(''SERVER_SOFTWARE'', ''NodeJS'')]"
  let ?page = "(examplePage ''No access to this.'')
                 \<lparr>head_server := map_of ?cgi ''SERVER_SOFTWARE'', file_fileType := None,
                  file_fileSize := None, file_fileBlob := None\<rparr>"
  have u: "uploadStep ?w [] ?opts = ([], Inr ())"
    by (simp add: uploadStep_def exampleOptions_def)
  have g: "getProcedure ?w ''!show'' ?args ?opts = ([], Inr (getVarArgsPara ''!show'' ?args))"
    by (simp add: getProcedure_def exampleOptions_def)
  have f: "validationFunction_of ?opts = Some ''auth.allowed''"
    by (simp add: validationFunction_of_def)
  have r: "validationReply ?w ''auth.allowed'' ''!show'' = ValidationResult (Some 0)"
    by simp
  have n: "Some (0::int) \<noteq> Some 1"
    by simp
  have l: "createLob ?w = Inr 7"
    by (simp add: exampleWorld_def)
  have p: "parse ?w ''No access to this.'' = Inr (examplePage ''No access to this.'')"
    by (simp add: exampleWorld_def)
  have s: "send ?w ?page = None"
    by (simp add: exampleWorld_def)
  from validation_false_soft_deny [OF u g f r n, of ?cgi]
  have "\<forall>l pg. createLob ?w = Inr l \<and> parse ?w ''No access to this.'' = Inr pg
          \<and> send ?w (pg\<lparr>head_server := map_of ?cgi ''SERVER_SOFTWARE'', file_fileType := None,
                         file_fileSize := None, file_fileBlob := None\<rparr>) = None
          \<longrightarrow> invokeProcedure ?w ''!show'' ?args ?cgi [] ?opts =
                ([] @ [] @
                   [EvExecute (validation_query ''auth.allowed'') (validation_bind ''!show''),
                    EvCreateLob,
                    EvParse ''No access to this.'',
                    EvSend (pg\<lparr>head_server := map_of ?cgi ''SERVER_SOFTWARE'', file_fileType := None,
                                 file_fileSize := None, file_fileBlob := None\<rparr>),
                    EvClose l],
                 Inr ())"
    by (rule conjunct2)
  with l p s have "invokeProcedure ?w ''!show'' ?args ?cgi [] ?opts =
                ([] @ [] @
                   [EvExecute (validation_query ''auth.allowed'') (validation_bind ''!show''),
                    EvCreateLob,
                    EvParse ''No access to this.'',
                    EvSend ?page,
                    EvClose 7],
                 Inr ())"
    by blast
  then show ?thesis by simp
qed

text \<open>
  Claim C6, as amended. When the validation query itself raises, the handler catches the
  error and raises a plain \<^verbatim>\<open>Error\<close> with a fixed message, which is neither a RequestError
  nor a ProcedureError; nothing after the validation query is run.
\<close>

theorem validation_failure_is_plain_error:
  assumes "uploadStep w files opts = (es1, Inr ())"
    and "getProcedure w proc argObj opts = (es2, Inr para)"
    and "validationFunction_of opts = Some f"
    and "validationReply w f proc = ValidationThrows t"
  shows "invokeProcedure w proc argObj cgiObj files opts =
    (es1 @ es2 @ [EvExecute (validation_query f) (validation_bind proc)],
     Inl (Error ''Error during the validation of the procedure (RequestValidationFunction)''))"
  unfolding invokeProcedure_def
  by (simp add: andThen_Inr [OF assms(1)] andThen_Inr [OF assms(2)]
      andThen_Inl [OF validateProcedure_throws [OF assms(3) assms(4)]])

theorem validation_failure_is_plain_error_witness:
  "invokeProcedure (exampleWorld\<lparr>validationReply := (\<lambda>f proc. ValidationThrows ''ORA-00904''),
                                 catalogReply := (\<lambda>proc. CatalogOutBinds [] [])\<rparr>)
      ''!list'' [] [] [] (exampleOptions\<lparr>requestValidation := Some ''auth.allowed''\<rparr>) =
     ([EvExecute (validation_query ''auth.allowed'') (validation_bind ''!list'')],
      Inl (Error ''Error during the validation of the procedure (RequestValidationFunction)''))"
proof -
  let ?w = "exampleWorld\<lparr>validationReply := (\<lambda>f proc. ValidationThrows ''ORA-00904''),
                          catalogReply := (\<lambda>proc. CatalogOutBinds [] [])\<rparr>"
  let ?opts = "exampleOptions\<lparr>requestValidation := Some ''auth.allowed''\<rparr>"
  have u: "uploadStep ?w [] ?opts = ([], Inr ())"
    by (simp add: uploadStep_def exampleOptions_def)
  have g: "getProcedure ?w ''!list'' [] ?opts = ([], Inr (getVarArgsPara ''!list'' []))"
    by (simp add: getProcedure_def exampleOptions_def)
  have f: "validationFunction_of ?opts = Some ''auth.allowed''"
    by (simp add: validationFunction_of_def)
  have r: "validationReply ?w ''auth.allowed'' ''!list'' = ValidationThrows ''ORA-00904''"
    by simp
  from validation_failure_is_plain_error [OF u g f r, of "[]"] show ?thesis
    by simp
qed

text \<open>
  Claim C6 as stated fails: for this request the validation query raises and the handler
  ends with the plain error, not with a RequestError.
\<close>

theorem validation_failure_not_request_error:
  "snd (invokeProcedure (exampleWorld\<lparr>validationReply := (\<lambda>f proc. ValidationThrows ''ORA-06550'')\<rparr>)
          ''pkg.show'' [(''p_name'', Str ''x'')] [(''SERVER_SOFTWARE'', ''NodeJS'')] []
          (exampleOptions\<lparr>requestValidation := Some ''auth.allowed''\<rparr>)) =
     Inl (Error ''Error during the validation of the procedure (RequestValidationFunction)'')
   \<and> (\<forall>m. snd (invokeProcedure (exampleWorld\<lparr>validationReply := (\<lambda>f proc. ValidationThrows ''ORA-06550'')\<rparr>)
          ''pkg.show'' [(''p_name'', Str ''x'')] [(''SERVER_SOFTWARE'', ''NodeJS'')] []
          (exampleOptions\<lparr>requestValidation := Some ''auth.allowed''\<rparr>)) \<noteq> Inl (RequestError m))"
  by (simp add: invokeProcedure_def andThen_def uploadStep_def getProcedure_def getFixArgsPara_def
      getArguments_def validateProcedure_def validationFunction_of_def exampleWorld_def
      exampleOptions_def split: prod.splits)




text \<open>
  Claim C9 fails on the code. The handler closes the output buffer only at the end of the
  run that sends a response. In each of the four runs below the buffer (handle 7) has been
  created and the run ends with an error, and no close is among the events: the invocation
  raises; the row count is above the ceiling; the parser raises; the sender raises. The
  last run is the successful one, which ends with the close.
\<close>

theorem output_buffer_not_closed_on_error:
  "invokeProcedure (exampleWorld\<lparr>procedureReply := (\<lambda>s b. ExecThrows ''ORA-06502'')\<rparr>)
      ''!show'' [] [] [] exampleOptions =
     ([EvCreateLob,
       EvExecute (getProcedureSQL ''show(:argnames, :argvalues);'')
         (Object_assign (envelope [] 7) (bind (getVarArgsPara ''!show'' [])))],
      Inl (ProcedureError
             (''Error when executing procedure\<newline>'' @ getProcedureSQL ''show(:argnames, :argvalues);''
                @ ''\<newline>'' @ ''ORA-06502'')
             [] ''show(:argnames, :argvalues);'' (bind (getVarArgsPara ''!show'' []))))
   \<and> invokeProcedure
        (exampleWorld\<lparr>procedureReply := (\<lambda>s b. ExecResult \<lparr>lines = [''Hello''], irows = Some 100001,
                            fileType = None, fileSize = None, fileBlob = None\<rparr>)\<rparr>)
        ''!show'' [] [] [] exampleOptions =
     ([EvCreateLob,
       EvExecute (getProcedureSQL ''show(:argnames, :argvalues);'')
         (Object_assign (envelope [] 7) (bind (getVarArgsPara ''!show'' [])))],
      Inl (ProcedureError
             (''Error when retrieving rows. irows='' @ [CHR 0x22] @ show_int 100001 @ [CHR 0x22])
             [] ''show(:argnames, :argvalues);'' (bind (getVarArgsPara ''!show'' []))))
   \<and> invokeProcedure (exampleWorld\<lparr>parse := (\<lambda>s. Inl (Error ''parse''))\<rparr>)
        ''!show'' [] [] [] exampleOptions =
     ([EvCreateLob,
       EvExecute (getProcedureSQL ''show(:argnames, :argvalues);'')
         (Object_assign (envelope [] 7) (bind (getVarArgsPara ''!show'' []))),
       EvParse ''Hello, world''],
      Inl (Error ''parse''))
   \<and> invokeProcedure (exampleWorld\<lparr>send := (\<lambda>page. Some (Error ''send''))\<rparr>)
        ''!show'' [] [] [] exampleOptions =
     ([EvCreateLob,
       EvExecute (getProcedureSQL ''show(:argnames, :argvalues);'')
         (Object_assign (envelope [] 7) (bind (getVarArgsPara ''!show'' []))),
       EvParse ''Hello, world'',
       EvSend (examplePage ''Hello, world'')],
      Inl (Error ''send''))
   \<and> invokeProcedure exampleWorld ''!show'' [] [] [] exampleOptions =
     ([EvCreateLob,
       EvExecute (getProcedureSQL ''show(:argnames, :argvalues);'')
         (Object_assign (envelope [] 7) (bind (getVarArgsPara ''!show'' []))),
       EvParse ''Hello, world'',
       EvSend (examplePage ''Hello, world''),
       EvClose 7],
      Inr ())"
proof -
  have para: "sql (getVarArgsPara ''!show'' []) = ''show(:argnames, :argvalues);''"
    by (simp add: getVarArgsPara_def)
  note defs = invokeProcedure_def andThen_def uploadStep_def getProcedure_def validateProcedure_def
    validationFunction_of_def executeProcedure_def processResults_def parseAndSend_def Let_def
    exampleWorld_def exampleOptions_def examplePage_def MAX_IROWS_def para
  have a: "invokeProcedure (exampleWorld\<lparr>procedureReply := (\<lambda>s b. ExecThrows ''ORA-06502'')\<rparr>)
      ''!show'' [] [] [] exampleOptions =
     ([EvCreateLob,
       EvExecute (getProcedureSQL ''show(:argnames, :argvalues);'')
         (Object_assign (envelope [] 7) (bind (getVarArgsPara ''!show'' [])))],
      Inl (ProcedureError
             (''Error when executing procedure\<newline>'' @ getProcedureSQL ''show(:argnames, :argvalues);''
                @ ''\<newline>'' @ ''ORA-06502'')
             [] ''show(:argnames, :argvalues);'' (bind (getVarArgsPara ''!show'' []))))"
    by (simp add: defs)
  have b: "invokeProcedure
        (exampleWorld\<lparr>procedureReply := (\<lambda>s b. ExecResult \<lparr>lines = [''Hello''], irows = Some 100001,
                            fileType = None, fileSize = None, fileBlob = None\<rparr>)\<rparr>)
        ''!show'' [] [] [] exampleOptions =
     ([EvCreateLob,
       EvExecute (getProcedureSQL ''show(:argnames, :argvalues);'')
         (Object_assign (envelope [] 7) (bind (getVarArgsPara ''!show'' [])))],
      Inl (ProcedureError
             (''Error when retrieving rows. irows='' @ [CHR 0x22] @ show_int 100001 @ [CHR 0x22])
             [] ''show(:argnames, :argvalues);'' (bind (getVarArgsPara ''!show'' []))))"
    by (simp add: defs)
  have c: "invokeProcedure (exampleWorld\<lparr>parse := (\<lambda>s. Inl (Error ''parse''))\<rparr>)
        ''!show'' [] [] [] exampleOptions =
     ([EvCreateLob,
       EvExecute (getProcedureSQL ''show(:argnames, :argvalues);'')
         (Object_assign (envelope [] 7) (bind (getVarArgsPara ''!show'' []))),
       EvParse ''Hello, world''],
      Inl (Error ''parse''))"
    by (simp add: defs)
  have d: "invokeProcedure (exampleWorld\<lparr>send := (\<lambda>page. Some (Error ''send''))\<rparr>)
        ''!show'' [] [] [] exampleOptions =
     ([EvCreateLob,
       EvExecute (getProcedureSQL ''show(:argnames, :argvalues);'')
         (Object_assign (envelope [] 7) (bind (getVarArgsPara ''!show'' []))),
       EvParse ''Hello, world'',
       EvSend (examplePage ''Hello, world'')],
      Inl (Error ''send''))"
    by (simp add: defs)
  have e: "invokeProcedure exampleWorld ''!show'' [] [] [] exampleOptions =
     ([EvCreateLob,
       EvExecute (getProcedureSQL ''show(:argnames, :argvalues);'')
         (Object_assign (envelope [] 7) (bind (getVarArgsPara ''!show'' []))),
       EvParse ''Hello, world'',
       EvSend (examplePage ''Hello, world''),
       EvClose 7],
      Inr ())"
    by (simp add: defs)
  from a b c d e show ?thesis by (intro conjI)
qed

end
